theory Spec2Isabelle
  imports Main "HOL-Library.Word"
begin

section \<open>The resource-monitor hook of makeflow\<close>

text \<open>
  A shallow embedding of \<^verbatim>\<open>makeflow/src/makeflow_module_resource_monitor.c\<close>.
  The global pointer \<^verbatim>\<open>monitor\<close> is passed explicitly as a value \<open>m\<close>.
  A C pointer that may be \<^verbatim>\<open>NULL\<close> is an \<open>option\<close>; a callback that would
  dereference a null field of the configuration returns \<open>None\<close>.
  Every call that reaches the runtime, the file system or a log is recorded, in call
  order, in a list of events; the value such a call gives back comes from a record of
  the linked helpers (\<open>env\<close>), so every theorem holds for any behaviour of them.
\<close>

subsection \<open>Configuration values (jx)\<close>

text \<open>
  Modelled from the spec: \<^verbatim>\<open>jx.h\<close> is not among the sources. The spec: ``a generic
  key-value configuration'' whose options are strings or integers, some of them
  optional. The lookups follow the contract the hook relies on when it tests their
  results: \<^verbatim>\<open>jx_lookup_string\<close> gives \<^verbatim>\<open>NULL\<close>, and \<^verbatim>\<open>jx_lookup_integer\<close> gives 0, when
  the key is absent or bound to a value of another type. \<^verbatim>\<open>jx_int_t\<close> is 64 bits wide.
\<close>

datatype jx = JX_NULL | JX_BOOLEAN bool | JX_INTEGER "64 word" | JX_STRING string

type_synonym jx_object = "(string \<times> jx) list"

fun jx_lookup :: "jx_object \<Rightarrow> string \<Rightarrow> jx option" where
  "jx_lookup [] key = None"
| "jx_lookup ((k, v) # ps) key = (if k = key then Some v else jx_lookup ps key)"

definition jx_lookup_string :: "jx_object \<Rightarrow> string \<Rightarrow> string option" where
  "jx_lookup_string args key =
     (case jx_lookup args key of Some (JX_STRING s) \<Rightarrow> Some s | _ \<Rightarrow> None)"

definition jx_lookup_integer :: "jx_object \<Rightarrow> string \<Rightarrow> 64 word" where
  "jx_lookup_integer args key =
     (case jx_lookup args key of Some (JX_INTEGER i) \<Rightarrow> i | _ \<Rightarrow> 0)"

subsection \<open>Data of the runtime the hook touches\<close>

datatype makeflow_hook_result = MAKEFLOW_HOOK_SUCCESS | MAKEFLOW_HOOK_FAILURE

datatype dag_file_type =
  DAG_FILE_TYPE_INPUT | DAG_FILE_TYPE_OUTPUT | DAG_FILE_TYPE_INTERMEDIATE
| DAG_FILE_TYPE_TEMP | DAG_FILE_TYPE_GLOBAL

datatype dag_file_state = DAG_FILE_STATE_UNKNOWN | DAG_FILE_STATE_EXISTS

datatype dag_node_state =
  DAG_NODE_STATE_WAITING | DAG_NODE_STATE_RUNNING | DAG_NODE_STATE_COMPLETE
| DAG_NODE_STATE_FAILED | DAG_NODE_STATE_ABORTED

text \<open>The allocation labels; the hook names only \<^verbatim>\<open>CATEGORY_ALLOCATION_ERROR\<close>.\<close>

datatype category_allocation_t =
  CATEGORY_ALLOCATION_FIRST | CATEGORY_ALLOCATION_MAX | CATEGORY_ALLOCATION_ERROR

text \<open>
  A parsed summary: key/value fields and the \<^verbatim>\<open>limits_exceeded\<close> sub-record (a
  pointer, possibly null).
\<close>

datatype rmsummary =
  Rmsummary (fields: "(string \<times> int) list") (limits_exceeded: "rmsummary option")

datatype errno = ENOENT | EEXIST | EACCES | ENOTDIR | ENOSPC | EROFS

record category =
  name :: string

record dag_file =
  filename :: string

record batch_queue =
  features :: "string list"

record dag_node =
  nodeid :: int
  category :: category
  resource_request :: category_allocation_t
  resources_requested :: "rmsummary option"
  resources_measured :: "rmsummary option"

record batch_job_info =
  disk_allocation_exhausted :: int
  exit_code :: int

record batch_task =
  command :: string
  info :: batch_job_info

record batch_wrapper =
  wrapper_prefix :: "string option"
  wrapper_cmds :: "string list"

subsection \<open>The configuration record\<close>

record makeflow_monitor =
  enable_debug :: "32 word"
  enable_time_series :: "32 word"
  enable_list_files :: "32 word"
  interval :: "32 word"
  log_dir :: "string option"
  log_format :: "string option"
  log_prefix :: "string option"
  exe :: "string option"
  exe_remote :: "string option"

subsection \<open>Events: the calls the hook makes\<close>

text \<open>
  One constructor for each helper whose call changes or reads something outside the
  hook, with the arguments of the call. \<open>Debug\<close> and \<open>Stderr\<close> carry the format string
  of the message. \<open>LogStateChange\<close> carries the id of the node.
\<close>

datatype event =
  Debug string
| Stderr string
| RmsummaryPrint rmsummary
| DagFileLookupOrCreate string
| LogFileStateChange dag_file dag_file_state
| LogStateChange int dag_node_state
| Mkdir string nat
| CreateDir string nat
| Rename string string
| HookAddInputFile string "string option" dag_file_type
| HookAddOutputFile string "string option" dag_file_type
| WriteCommand (wc_executable: string) (wc_output_prefix: string) "rmsummary option" string
    "32 word" "32 word" "32 word"
| TaskWrapCommand string
| TaskSetCommand string
| WrapperWrite batch_wrapper
| RmsummaryDelete rmsummary
| RmsummaryParse string
| CategoryAccumulate string rmsummary

subsection \<open>The linked helpers\<close>

text \<open>
  None of these is among the sources; each is a parameter. \<open>sys_mkdir\<close> and
  \<open>sys_rename\<close> give \<open>None\<close> for the return value 0 and \<open>Some e\<close> for -1 with
  \<^verbatim>\<open>errno\<close> \<open>e\<close>. \<open>create_dir\<close> gives the helper's integer result.
\<close>

record env =
  resource_monitor_locate :: "string option"
  RM_OVERFLOW :: int
  sys_mkdir :: "string \<Rightarrow> nat \<Rightarrow> errno option"
  create_dir :: "string \<Rightarrow> nat \<Rightarrow> int"
  sys_rename :: "string \<Rightarrow> string \<Rightarrow> errno option"
  path_basename :: "string \<Rightarrow> string"
  makeflow_get_queue :: "dag_node \<Rightarrow> batch_queue"
  dag_file_lookup_or_create :: "string \<Rightarrow> dag_file"
  makeflow_hook_add_input_file :: "string \<Rightarrow> string option \<Rightarrow> dag_file_type \<Rightarrow> dag_file"
  dag_node_dynamic_label :: "dag_node \<Rightarrow> rmsummary option"
  resource_monitor_write_command ::
    "string \<Rightarrow> string \<Rightarrow> rmsummary option \<Rightarrow> string \<Rightarrow> 32 word \<Rightarrow> 32 word \<Rightarrow> 32 word \<Rightarrow> string"
  batch_task_wrap_command :: "batch_task \<Rightarrow> string \<Rightarrow> batch_task"
  batch_task_set_command :: "batch_task \<Rightarrow> string \<Rightarrow> batch_task"
  batch_wrapper_write :: "batch_wrapper \<Rightarrow> batch_task \<Rightarrow> string option"
  rmsummary_parse_file_single :: "string \<Rightarrow> rmsummary option"
  category_next_label ::
    "category \<Rightarrow> category_allocation_t \<Rightarrow> int \<Rightarrow> rmsummary option \<Rightarrow> rmsummary option
      \<Rightarrow> category_allocation_t"

definition batch_queue_supports_feature :: "batch_queue \<Rightarrow> string \<Rightarrow> bool" where
  "batch_queue_supports_feature q f = (f \<in> set (features q))"

subsection \<open>\<^verbatim>\<open>create\<close>\<close>

definition DEFAULT_MONITOR_LOG_FORMAT :: string where
  "DEFAULT_MONITOR_LOG_FORMAT = ''resource-rule-%%''"

definition makeflow_monitor_create :: makeflow_monitor where
  "makeflow_monitor_create =
     \<lparr> enable_debug = 0, enable_time_series = 0, enable_list_files = 0,
       interval = 1, log_dir = None, log_format = None, log_prefix = None,
       exe = None, exe_remote = None \<rparr>"

text \<open>
  The steps of \<^verbatim>\<open>create\<close> up to the first check: the options are read into the
  fresh record. An assignment of a \<^verbatim>\<open>jx_int_t\<close> to an \<^verbatim>\<open>int\<close> field keeps the low
  32 bits (\<open>ucast\<close>).
\<close>

definition read_options :: "jx_object \<Rightarrow> makeflow_monitor" where
  "read_options args =
     (let m0 = makeflow_monitor_create;
          m1 = (case jx_lookup_string args ''resource_monitor_log_dir'' of
                  Some s \<Rightarrow> m0\<lparr>log_dir := Some s\<rparr> | None \<Rightarrow> m0);
          m2 = (case jx_lookup_string args ''resource_monitor_log_format'' of
                  Some s \<Rightarrow> m1\<lparr>log_format := Some s\<rparr> | None \<Rightarrow> m1);
          m3 = (if jx_lookup_integer args ''resource_monitor_interval'' \<noteq> 0
                then m2\<lparr>interval := ucast (jx_lookup_integer args ''resource_monitor_interval'')\<rparr>
                else m2)
      in m3\<lparr>enable_time_series :=
               ucast (jx_lookup_integer args ''resource_monitor_enable_time_series''),
             enable_list_files :=
               ucast (jx_lookup_integer args ''resource_monitor_enable_list_files'')\<rparr>)"

definition create :: "env \<Rightarrow> jx_object \<Rightarrow> makeflow_hook_result \<times> makeflow_monitor \<times> event list" where
  "create env args =
     (let m = read_options args in
      case log_dir m of
        None \<Rightarrow>
          (MAKEFLOW_HOOK_FAILURE, m,
           [Debug ''Monitor mode was enabled, but a log output directory was not specified (use --monitor=<dir>)''])
      | Some dir \<Rightarrow>
          let fmt = (case log_format m of None \<Rightarrow> DEFAULT_MONITOR_LOG_FORMAT | Some f \<Rightarrow> f);
              m = m\<lparr>log_format := Some fmt, log_prefix := Some (dir @ ''/'' @ fmt)\<rparr>
          in if interval m <s 1
             then (MAKEFLOW_HOOK_FAILURE, m, [Debug ''Monitoring interval should be positive.''])
             else
               (case resource_monitor_locate env of
                  None \<Rightarrow>
                    (MAKEFLOW_HOOK_FAILURE, m,
                     [Debug ''Monitor mode was enabled, but could not find resource_monitor in PATH.''])
                | Some e \<Rightarrow>
                    (MAKEFLOW_HOOK_SUCCESS,
                     m\<lparr>exe := Some e, exe_remote := Some ''cctools-monitor''\<rparr>, [])))"

subsection \<open>\<^verbatim>\<open>dag_start\<close>\<close>

definition newline :: string where
  "newline = [CHR 0x0A]"

definition mkdir_failed_msg :: string where
  "mkdir_failed_msg = ''Monitor mode was enabled, but could not create output directory. %s''"

text \<open>
  The local variable \<^verbatim>\<open>result\<close> holds \<^verbatim>\<open>mkdir\<close>'s return value, replaced by
  \<^verbatim>\<open>!create_dir(...)\<close> after \<^verbatim>\<open>ENOENT\<close>. The mode \<^verbatim>\<open>0777\<close> is 511.
\<close>

definition dag_start :: "env \<Rightarrow> makeflow_monitor \<Rightarrow> (makeflow_hook_result \<times> event list) option" where
  "dag_start env m =
     (case (exe m, log_dir m) of
        (Some e, Some dir) \<Rightarrow>
          let (result, evs) =
                (case sys_mkdir env dir 511 of
                   None \<Rightarrow> (0 :: int, [])
                 | Some err \<Rightarrow>
                     if err = ENOENT
                     then ((if create_dir env dir 511 = 0 then 1 else 0), [CreateDir dir 511])
                     else if err \<noteq> EEXIST
                     then (- 1, [Debug mkdir_failed_msg])
                     else (- 1, []))
          in Some (MAKEFLOW_HOOK_SUCCESS,
                   [DagFileLookupOrCreate e, Mkdir dir 511] @ evs @
                   (if result = 0
                    then [DagFileLookupOrCreate dir,
                          LogFileStateChange (dag_file_lookup_or_create env dir) DAG_FILE_STATE_EXISTS]
                    else []))
      | _ \<Rightarrow> None)"

subsection \<open>The per-node log prefix\<close>

text \<open>\<^verbatim>\<open>string_format("%d", i)\<close>: the decimal digits of a C \<^verbatim>\<open>int\<close>, with a sign.\<close>

definition digit_char :: "nat \<Rightarrow> char" where
  "digit_char d = char_of (48 + d)"

function digits_of :: "nat \<Rightarrow> string" where
  "digits_of n = (if n < 10 then [digit_char n] else digits_of (n div 10) @ [digit_char (n mod 10)])"
  by pat_completeness auto
termination
  by (relation "measure id") auto

declare digits_of.simps [simp del]

definition string_format_d :: "int \<Rightarrow> string" where
  "string_format_d i = (if i < 0 then CHR ''-'' # digits_of (nat (- i)) else digits_of (nat i))"

text \<open>
  Modelled from the spec: \<^verbatim>\<open>string_replace_percents\<close> (stringtools) is not among the
  sources. The spec: ``\<^verbatim>\<open>log_prefix\<close> with \<^verbatim>\<open>%%\<close> replaced by the node's decimal id''.
  The string is scanned from the left and every marker \<^verbatim>\<open>%%\<close> met is replaced.
\<close>

fun string_replace_percents :: "string \<Rightarrow> string \<Rightarrow> string" where
  "string_replace_percents [] r = []"
| "string_replace_percents [c] r = [c]"
| "string_replace_percents (c # d # s) r =
     (if c = CHR ''%'' \<and> d = CHR ''%''
      then r @ string_replace_percents s r
      else c # string_replace_percents (d # s) r)"

definition set_log_prefix :: "makeflow_monitor \<Rightarrow> dag_node \<Rightarrow> string option" where
  "set_log_prefix m n =
     (case log_prefix m of
        None \<Rightarrow> None
      | Some p \<Rightarrow> Some (string_replace_percents p (string_format_d (nodeid n))))"

subsection \<open>\<^verbatim>\<open>node_submit\<close>\<close>

definition batch_wrapper_create :: batch_wrapper where
  "batch_wrapper_create = \<lparr> wrapper_prefix = None, wrapper_cmds = [] \<rparr>"

definition batch_wrapper_prefix :: "batch_wrapper \<Rightarrow> string \<Rightarrow> batch_wrapper" where
  "batch_wrapper_prefix w p = w\<lparr>wrapper_prefix := Some p\<rparr>"

definition batch_wrapper_cmd :: "batch_wrapper \<Rightarrow> string \<Rightarrow> batch_wrapper" where
  "batch_wrapper_cmd w c = w\<lparr>wrapper_cmds := wrapper_cmds w @ [c]\<rparr>"

definition node_submit ::
  "env \<Rightarrow> makeflow_monitor \<Rightarrow> dag_node \<Rightarrow> batch_task
    \<Rightarrow> (makeflow_hook_result \<times> batch_task \<times> event list) option" where
  "node_submit env m n task =
     (case (exe m, exe_remote m, set_log_prefix m n) of
        (Some exe_path, Some remote, Some prefix) \<Rightarrow>
          let wrapper = batch_wrapper_prefix batch_wrapper_create ''./resource_monitor'';
              ev_in = [HookAddInputFile exe_path (Some remote) DAG_FILE_TYPE_GLOBAL];
              executable =
                (if batch_queue_supports_feature (makeflow_get_queue env n) ''remote_rename''
                 then ''./'' @ remote else exe_path);
              ev_out =
                [HookAddOutputFile (prefix @ ''.summary'') None DAG_FILE_TYPE_INTERMEDIATE] @
                (if enable_time_series m \<noteq> 0
                 then [HookAddOutputFile (prefix @ ''.series'') None DAG_FILE_TYPE_INTERMEDIATE]
                 else []) @
                (if enable_list_files m \<noteq> 0
                 then [HookAddOutputFile (prefix @ ''.files'') None DAG_FILE_TYPE_INTERMEDIATE]
                 else []);
              extra_options = ''-V '' @ [CHR 0x27] @ ''category:'' @ name (category n) @ [CHR 0x27];
              output_prefix =
                (if batch_queue_supports_feature (makeflow_get_queue env n) ''output_directories''
                 then prefix else path_basename env prefix);
              cmd = resource_monitor_write_command env executable output_prefix
                      (dag_node_dynamic_label env n) extra_options
                      (enable_debug m) (enable_time_series m) (enable_list_files m);
              ev_cmd = [WriteCommand executable output_prefix (dag_node_dynamic_label env n)
                          extra_options (enable_debug m) (enable_time_series m) (enable_list_files m),
                        TaskWrapCommand cmd];
              task = batch_task_wrap_command env task cmd;
              wrapper = batch_wrapper_cmd wrapper (command task);
              evs = ev_in @ ev_out @ ev_cmd @ [WrapperWrite wrapper]
          in (case batch_wrapper_write env wrapper task of
                Some cmd \<Rightarrow>
                  let task = batch_task_set_command env task cmd;
                      df = makeflow_hook_add_input_file env cmd (Some cmd) DAG_FILE_TYPE_TEMP
                  in Some (MAKEFLOW_HOOK_SUCCESS, task,
                           evs @ [TaskSetCommand cmd,
                                  HookAddInputFile cmd (Some cmd) DAG_FILE_TYPE_TEMP,
                                  Debug ''Wrapper written to %s'',
                                  LogFileStateChange df DAG_FILE_STATE_EXISTS])
              | None \<Rightarrow>
                  Some (MAKEFLOW_HOOK_FAILURE, task,
                        evs @ [Debug ''Failed to create wrapper: errno %d, %s'']))
      | _ \<Rightarrow> None)"

subsection \<open>\<^verbatim>\<open>makeflow_monitor_move_output_if_needed\<close>\<close>

definition rename_error_msg :: string where
  "rename_error_msg = ''Error moving Resource Monitor output %s:%s. %s'' @ newline"

definition makeflow_monitor_move_output_if_needed ::
  "env \<Rightarrow> makeflow_monitor \<Rightarrow> dag_node \<Rightarrow> batch_queue
    \<Rightarrow> (makeflow_hook_result \<times> event list) option" where
  "makeflow_monitor_move_output_if_needed env m n queue =
     (if \<not> batch_queue_supports_feature queue ''output_directories''
      then
        (case set_log_prefix m n of
           None \<Rightarrow> None
         | Some prefix \<Rightarrow>
             let output_prefix = path_basename env prefix in
             if prefix = output_prefix
             then Some (MAKEFLOW_HOOK_SUCCESS, [])
             else
               let ev1 = [Rename (output_prefix @ ''.summary'') (prefix @ ''.summary'')] in
               if sys_rename env (output_prefix @ ''.summary'') (prefix @ ''.summary'') \<noteq> None
               then Some (MAKEFLOW_HOOK_FAILURE, ev1 @ [Debug rename_error_msg])
               else
                 let ev2 = (if enable_time_series m \<noteq> 0
                            then [Rename (output_prefix @ ''.series'') (prefix @ ''.series'')]
                            else []) in
                 if enable_time_series m \<noteq> 0 \<and>
                    sys_rename env (output_prefix @ ''.series'') (prefix @ ''.series'') \<noteq> None
                 then Some (MAKEFLOW_HOOK_FAILURE, ev1 @ ev2 @ [Debug rename_error_msg])
                 else
                   let ev3 = (if enable_list_files m \<noteq> 0
                              then [Rename (output_prefix @ ''.files'') (prefix @ ''.files'')]
                              else []) in
                   if enable_list_files m \<noteq> 0 \<and>
                      sys_rename env (output_prefix @ ''.files'') (prefix @ ''.files'') \<noteq> None
                   then Some (MAKEFLOW_HOOK_FAILURE, ev1 @ ev2 @ ev3 @ [Debug rename_error_msg])
                   else Some (MAKEFLOW_HOOK_SUCCESS, ev1 @ ev2 @ ev3))
      else Some (MAKEFLOW_HOOK_SUCCESS, []))"

subsection \<open>\<^verbatim>\<open>node_end\<close>\<close>

definition measure_failed_msg :: string where
  "measure_failed_msg = ''Resource Monitor failed to measure resources.'' @ newline"

definition node_end ::
  "env \<Rightarrow> makeflow_monitor \<Rightarrow> dag_node \<Rightarrow> batch_task
    \<Rightarrow> (makeflow_hook_result \<times> dag_node \<times> event list) option" where
  "node_end env m n task =
     (case set_log_prefix m n of
        None \<Rightarrow> None
      | Some prefix \<Rightarrow>
          let output_prefix =
                (if batch_queue_supports_feature (makeflow_get_queue env n) ''output_directories''
                 then prefix else path_basename env prefix);
              summary_name = output_prefix @ ''.summary'';
              ev_del = (case resources_measured n of
                          Some old \<Rightarrow> [RmsummaryDelete old] | None \<Rightarrow> []);
              n = n\<lparr>resources_measured := rmsummary_parse_file_single env summary_name\<rparr>;
              evs = ev_del @ [RmsummaryParse summary_name]
          in (case resources_measured n of
                None \<Rightarrow>
                  Some (MAKEFLOW_HOOK_SUCCESS, n,
                        evs @ [Debug measure_failed_msg])
              | Some measured \<Rightarrow>
                  (case makeflow_monitor_move_output_if_needed env m n (makeflow_get_queue env n) of
                     None \<Rightarrow> None
                   | Some (r, ev_move) \<Rightarrow>
                       Some (r, n, evs @ [CategoryAccumulate (name (category n)) measured] @ ev_move))))"

subsection \<open>\<^verbatim>\<open>node_fail\<close>\<close>

text \<open>The report of the branch for an exhausted disk allocation (lines 305 to 311).\<close>

definition disk_report :: "dag_node \<Rightarrow> event list" where
  "disk_report n =
     [Stderr (newline @
        ''rule %d failed because it exceeded its disk allocation capacity.'' @ newline)] @
     (case resources_measured n of
        Some measured \<Rightarrow> [RmsummaryPrint measured, Stderr newline]
      | None \<Rightarrow> [])"

text \<open>The report of the branch for the exit code \<^verbatim>\<open>RM_OVERFLOW\<close> (lines 313 to 318).\<close>

definition overflow_report :: "dag_node \<Rightarrow> event list" where
  "overflow_report n =
     [Debug (''rule %d failed because it exceeded the resources limits.'' @ newline)] @
     (case resources_measured n of
        Some measured \<Rightarrow>
          (case limits_exceeded measured of
             Some lim \<Rightarrow> [Debug ''%s''] | None \<Rightarrow> [])
      | None \<Rightarrow> [])"

text \<open>
  Lines 323 to 332, reached from both branches: the next label is asked for and,
  unless it is the error label, recorded on the node, and the node is sent back to
  WAITING. \<open>ev_report\<close> holds the events of the branch taken before.
\<close>

definition node_fail_resubmit ::
  "env \<Rightarrow> dag_node \<Rightarrow> event list \<Rightarrow> makeflow_hook_result \<times> dag_node \<times> event list" where
  "node_fail_resubmit env n ev_report =
     (let next_label = category_next_label env (category n) (resource_request n) 1
                         (resources_requested n) (resources_measured n)
      in if next_label \<noteq> CATEGORY_ALLOCATION_ERROR
         then (MAKEFLOW_HOOK_FAILURE, n\<lparr>resource_request := next_label\<rparr>,
               ev_report @ [Debug (''Rule %d resubmitted using new resource allocation.'' @ newline),
                            LogStateChange (nodeid n) DAG_NODE_STATE_WAITING])
         else (MAKEFLOW_HOOK_FAILURE, n, ev_report))"

definition node_fail ::
  "env \<Rightarrow> dag_node \<Rightarrow> batch_task \<Rightarrow> makeflow_hook_result \<times> dag_node \<times> event list" where
  "node_fail env n task =
     (if disk_allocation_exhausted (info task) \<noteq> 0
      then node_fail_resubmit env n (disk_report n)
      else if exit_code (info task) = RM_OVERFLOW env
      then node_fail_resubmit env n (overflow_report n)
      else (MAKEFLOW_HOOK_SUCCESS, n, []))"

section \<open>Reading a run\<close>

subsection \<open>Projections of an event list\<close>

fun is_state_change :: "event \<Rightarrow> bool" where
  "is_state_change (LogStateChange i s) = True"
| "is_state_change e = False"

fun is_rename :: "event \<Rightarrow> bool" where
  "is_rename (Rename old new) = True"
| "is_rename e = False"

fun is_accumulate :: "event \<Rightarrow> bool" where
  "is_accumulate (CategoryAccumulate c s) = True"
| "is_accumulate e = False"

fun is_output_decl :: "event \<Rightarrow> bool" where
  "is_output_decl (HookAddOutputFile f r t) = True"
| "is_output_decl e = False"

fun is_write_command :: "event \<Rightarrow> bool" where
  "is_write_command (WriteCommand e p l x d t f) = True"
| "is_write_command ev = False"

fun is_parse :: "event \<Rightarrow> bool" where
  "is_parse (RmsummaryParse f) = True"
| "is_parse e = False"

text \<open>The events of a run of a callback that also returns a node or a task.\<close>

definition hook_events :: "(makeflow_hook_result \<times> 'a \<times> event list) option \<Rightarrow> event list" where
  "hook_events r = (case r of None \<Rightarrow> [] | Some (res, x, evs) \<Rightarrow> evs)"

text \<open>The \<^verbatim>\<open>rename\<close> calls of a run of the relocation, in call order.\<close>

definition rename_calls :: "(makeflow_hook_result \<times> event list) option \<Rightarrow> event list" where
  "rename_calls r = (case r of None \<Rightarrow> [] | Some (res, evs) \<Rightarrow> filter is_rename evs)"

subsection \<open>The relocation and the marker, as the contract words them\<close>

text \<open>
  The renames the relocation has to make, in order, and the ones it gets to when it
  stops at the first that fails.
\<close>

definition planned_renames :: "makeflow_monitor \<Rightarrow> string \<Rightarrow> string \<Rightarrow> (string \<times> string) list" where
  "planned_renames m output_prefix prefix =
     [(output_prefix @ ''.summary'', prefix @ ''.summary'')] @
     (if enable_time_series m \<noteq> 0 then [(output_prefix @ ''.series'', prefix @ ''.series'')] else []) @
     (if enable_list_files m \<noteq> 0 then [(output_prefix @ ''.files'', prefix @ ''.files'')] else [])"

fun attempted_renames :: "env \<Rightarrow> (string \<times> string) list \<Rightarrow> event list" where
  "attempted_renames env [] = []"
| "attempted_renames env ((old, new) # rest) =
     Rename old new # (if sys_rename env old new = None then attempted_renames env rest else [])"

fun all_renamed :: "env \<Rightarrow> (string \<times> string) list \<Rightarrow> bool" where
  "all_renamed env [] = True"
| "all_renamed env ((old, new) # rest) = (sys_rename env old new = None \<and> all_renamed env rest)"

text \<open>Whether a string holds the marker \<^verbatim>\<open>%%\<close> somewhere.\<close>

fun has_marker :: "string \<Rightarrow> bool" where
  "has_marker (c # d # s) = ((c = CHR ''%'' \<and> d = CHR ''%'') \<or> has_marker (d # s))"
| "has_marker s = False"

section \<open>Concrete inputs, used to run the hook\<close>

text \<open>
  Modelled from the spec: \<^verbatim>\<open>path_basename\<close> (path.h) is not among the sources. The
  spec: ``its basename (the final path component)''. The hook itself takes the helper
  as a parameter; this function only instantiates it.
\<close>

definition final_component :: "string \<Rightarrow> string" where
  "final_component p = rev (takeWhile (\<lambda>c. c \<noteq> CHR ''/'') (rev p))"

text \<open>
  An environment in which the binary is found, \<^verbatim>\<open>mkdir\<close> succeeds on \<^verbatim>\<open>logs\<close>, finds
  \<^verbatim>\<open>old\<close> existing, misses the parent of \<^verbatim>\<open>a/b\<close> and is refused elsewhere, every
  rename succeeds, the queue has no feature, no summary file can be parsed, and the
  allocation ladder has one step above the first label.
\<close>

definition ex_env :: env where
  "ex_env =
     \<lparr> resource_monitor_locate = Some ''/usr/bin/resource_monitor'',
       RM_OVERFLOW = 147,
       sys_mkdir = (\<lambda>p md. if p = ''logs'' then None else if p = ''old'' then Some EEXIST
                           else if p = ''a/b'' then Some ENOENT else Some EACCES),
       create_dir = (\<lambda>p md. 1),
       sys_rename = (\<lambda>old new. None),
       path_basename = final_component,
       makeflow_get_queue = (\<lambda>n. \<lparr>features = []\<rparr>),
       dag_file_lookup_or_create = (\<lambda>p. \<lparr>filename = p\<rparr>),
       makeflow_hook_add_input_file = (\<lambda>f r t. \<lparr>filename = f\<rparr>),
       dag_node_dynamic_label = (\<lambda>n. None),
       resource_monitor_write_command = (\<lambda>e p l x d t f. e @ '' -O '' @ p @ '' '' @ x @ '' --''),
       batch_task_wrap_command = (\<lambda>t c. t\<lparr>command := c @ '' '' @ command t\<rparr>),
       batch_task_set_command = (\<lambda>t c. t\<lparr>command := c\<rparr>),
       batch_wrapper_write = (\<lambda>w t. Some ''./resource_monitor_7''),
       rmsummary_parse_file_single = (\<lambda>p. None),
       category_next_label =
         (\<lambda>c a ov req meas. if a = CATEGORY_ALLOCATION_FIRST then CATEGORY_ALLOCATION_MAX
                             else CATEGORY_ALLOCATION_ERROR) \<rparr>"

definition ex_queue :: "string list \<Rightarrow> batch_queue" where
  "ex_queue fs = \<lparr> features = fs \<rparr>"

definition ex_env_rename_fails :: env where
  "ex_env_rename_fails = ex_env\<lparr>sys_rename := (\<lambda>old new. Some ENOENT)\<rparr>"

definition ex_env_no_parent :: env where
  "ex_env_no_parent = ex_env\<lparr>sys_mkdir := (\<lambda>p md. Some ENOENT), create_dir := (\<lambda>p md. 0)\<rparr>"

definition ex_env_any_dir :: env where
  "ex_env_any_dir = ex_env\<lparr>sys_mkdir := (\<lambda>p md. None)\<rparr>"

definition ex_summary_new :: rmsummary where
  "ex_summary_new = Rmsummary [(''cores'', 2), (''memory'', 128)] None"

definition ex_env_measured :: env where
  "ex_env_measured = ex_env\<lparr>rmsummary_parse_file_single := (\<lambda>f. Some ex_summary_new)\<rparr>"

definition ex_env_remote :: env where
  "ex_env_remote =
     ex_env\<lparr>makeflow_get_queue := (\<lambda>n. ex_queue [''remote_rename'', ''output_directories''])\<rparr>"

definition ex_summary :: rmsummary where
  "ex_summary = Rmsummary [(''cores'', 1), (''memory'', 64)] None"

definition ex_node :: dag_node where
  "ex_node =
     \<lparr> nodeid = 7, category = \<lparr>name = ''c1''\<rparr>, resource_request = CATEGORY_ALLOCATION_FIRST,
       resources_requested = None, resources_measured = Some ex_summary \<rparr>"

definition ex_task :: "int \<Rightarrow> int \<Rightarrow> batch_task" where
  "ex_task disk code =
     \<lparr> command = ''./sim'', info = \<lparr>disk_allocation_exhausted = disk, exit_code = code\<rparr> \<rparr>"

definition ex_args :: jx_object where
  "ex_args =
     [(''resource_monitor_log_dir'', JX_STRING ''logs''),
      (''resource_monitor_log_format'', JX_STRING ''r-%%''),
      (''resource_monitor_interval'', JX_INTEGER 5),
      (''resource_monitor_enable_time_series'', JX_INTEGER 1)]"

definition ex_args_interval :: "64 word \<Rightarrow> jx_object" where
  "ex_args_interval i =
     [(''resource_monitor_log_dir'', JX_STRING ''logs''),
      (''resource_monitor_interval'', JX_INTEGER i)]"

text \<open>The configuration \<^verbatim>\<open>create\<close> builds from \<open>ex_args\<close>, with the two flags free.\<close>

definition ex_monitor :: "32 word \<Rightarrow> 32 word \<Rightarrow> makeflow_monitor" where
  "ex_monitor ts lf =
     \<lparr> enable_debug = 0, enable_time_series = ts, enable_list_files = lf, interval = 5,
       log_dir = Some ''logs'', log_format = Some ''r-%%'', log_prefix = Some ''logs/r-%%'',
       exe = Some ''/usr/bin/resource_monitor'', exe_remote = Some ''cctools-monitor'' \<rparr>"

text \<open>The configuration \<^verbatim>\<open>create\<close> builds when only the log directory \<^verbatim>\<open>a%%\<close> is given.\<close>

definition ex_monitor_marker :: makeflow_monitor where
  "ex_monitor_marker =
     \<lparr> enable_debug = 0, enable_time_series = 0, enable_list_files = 0, interval = 1,
       log_dir = Some ''a%%'', log_format = Some ''resource-rule-%%'',
       log_prefix = Some ''a%%/resource-rule-%%'',
       exe = Some ''/usr/bin/resource_monitor'', exe_remote = Some ''cctools-monitor'' \<rparr>"

section \<open>Properties\<close>

subsection \<open>Facts about the concrete inputs\<close>

lemma one_not_sless_one: "\<not> (1 :: 32 word) <s 1"
  by simp

lemma five_not_sless_one: "\<not> (5 :: 32 word) <s 1"
  by code_simp

lemma ucast_minus_one_sless: "(ucast (- 1 :: 64 word) :: 32 word) <s 1"
  by code_simp

lemma zero_sless_one: "(0 :: 64 word) <s 1"
  by code_simp

lemma digit_char_7: "digit_char 7 = CHR ''7''"
  by code_simp

lemma string_format_d_7: "string_format_d 7 = ''7''"
  by (simp add: string_format_d_def digits_of.simps digit_char_7)

lemma ex_prefix: "set_log_prefix (ex_monitor ts lf) ex_node = Some ''logs/r-7''"
  by (simp add: set_log_prefix_def ex_monitor_def ex_node_def string_format_d_7)

lemma ex_basename: "final_component ''logs/r-7'' = ''r-7''"
  by (simp add: final_component_def)

lemma ex_queue_plain: "\<not> batch_queue_supports_feature (ex_queue []) f"
  by (simp add: batch_queue_supports_feature_def ex_queue_def)

lemma ex_monitor_exe:
  "exe (ex_monitor ts lf) = Some ''/usr/bin/resource_monitor''"
  "exe_remote (ex_monitor ts lf) = Some ''cctools-monitor''"
  by (simp_all add: ex_monitor_def)

lemma ex_create:
  "create ex_env ex_args = (MAKEFLOW_HOOK_SUCCESS, (ex_monitor 1 0), [])"
  "create ex_env_remote ex_args = (MAKEFLOW_HOOK_SUCCESS, (ex_monitor 1 0), [])"
  by (simp_all add: create_def read_options_def ex_env_remote_def ex_env_def ex_args_def
      ex_monitor_def jx_lookup_string_def jx_lookup_integer_def makeflow_monitor_create_def
      Let_def five_not_sless_one)

subsection \<open>Validation in \<^verbatim>\<open>create\<close>\<close>

lemma read_options_log_dir:
  "log_dir (read_options args) = jx_lookup_string args ''resource_monitor_log_dir''"
  by (simp add: read_options_def Let_def makeflow_monitor_create_def split: option.split)

lemma read_options_interval:
  "interval (read_options args) =
     (if jx_lookup_integer args ''resource_monitor_interval'' \<noteq> 0
      then ucast (jx_lookup_integer args ''resource_monitor_interval'') else 1)"
  by (simp add: read_options_def Let_def makeflow_monitor_create_def split: option.split)

lemma create_result_cases:
  "fst (create env args) =
     (if log_dir (read_options args) = None \<or> interval (read_options args) <s 1 \<or>
         resource_monitor_locate env = None
      then MAKEFLOW_HOOK_FAILURE else MAKEFLOW_HOOK_SUCCESS)"
  by (simp add: create_def Let_def split: option.split)

lemma create_success:
  assumes "create env args = (MAKEFLOW_HOOK_SUCCESS, m, evs)"
  shows "\<exists>e dir fmt. resource_monitor_locate env = Some e \<and> exe m = Some e \<and>
           exe_remote m = Some ''cctools-monitor'' \<and> log_dir m = Some dir \<and>
           log_format m = Some fmt \<and> log_prefix m = Some (dir @ ''/'' @ fmt)"
  using assms
  by (auto simp: create_def Let_def split: option.splits if_splits)

text \<open>
  C1, as the code has it. \<^verbatim>\<open>create\<close> returns failure exactly when the lookup of
  \<^verbatim>\<open>resource_monitor_log_dir\<close> gives no string, or the option
  \<^verbatim>\<open>resource_monitor_interval\<close> is a non-zero integer that, stored in the \<^verbatim>\<open>int\<close>
  field, is less than 1, or the sidecar binary is not located; in every other case it
  returns success. An interval option that is absent, not an integer or zero leaves
  the default of 1 in place (the guard on line 67).
\<close>

theorem create_fails_iff:
  "(fst (create env args) = MAKEFLOW_HOOK_FAILURE) =
     (jx_lookup_string args ''resource_monitor_log_dir'' = None \<or>
      (jx_lookup_integer args ''resource_monitor_interval'' \<noteq> 0 \<and>
       (ucast (jx_lookup_integer args ''resource_monitor_interval'') :: 32 word) <s 1) \<or>
      resource_monitor_locate env = None) \<and>
   (fst (create env args) = MAKEFLOW_HOOK_SUCCESS) =
     (jx_lookup_string args ''resource_monitor_log_dir'' \<noteq> None \<and>
      (jx_lookup_integer args ''resource_monitor_interval'' = 0 \<or>
       \<not> (ucast (jx_lookup_integer args ''resource_monitor_interval'') :: 32 word) <s 1) \<and>
      resource_monitor_locate env \<noteq> None)"
proof -
  have iv: "interval (read_options args) <s 1 \<longleftrightarrow>
      jx_lookup_integer args ''resource_monitor_interval'' \<noteq> 0 \<and>
      (ucast (jx_lookup_integer args ''resource_monitor_interval'') :: 32 word) <s 1"
    by (simp add: read_options_interval one_not_sless_one)
  show ?thesis
    unfolding create_result_cases read_options_log_dir iv by auto
qed

theorem create_fails_iff_witness:
  "fst (create ex_env (ex_args_interval 5)) = MAKEFLOW_HOOK_SUCCESS \<and>
   fst (create ex_env (ex_args_interval (- 1))) = MAKEFLOW_HOOK_FAILURE \<and>
   fst (create ex_env []) = MAKEFLOW_HOOK_FAILURE"
proof -
  have five: "\<not> (ucast (5 :: 64 word) :: 32 word) <s 1"
    by code_simp
  have look: "jx_lookup_string (ex_args_interval i) ''resource_monitor_log_dir'' = Some ''logs''"
      "jx_lookup_integer (ex_args_interval i) ''resource_monitor_interval'' = i"
      "jx_lookup_string [] ''resource_monitor_log_dir'' = None" for i
    by (simp_all add: ex_args_interval_def jx_lookup_string_def jx_lookup_integer_def)
  have loc: "resource_monitor_locate ex_env \<noteq> None"
    by (simp add: ex_env_def)
  show ?thesis
    using create_fails_iff [of ex_env "ex_args_interval 5"]
      create_fails_iff [of ex_env "ex_args_interval (- 1)"]
      create_fails_iff [of ex_env "[]"]
      five look loc ucast_minus_one_sless
    by simp
qed

text \<open>
  The claim as stated fails for an interval option of 0: the value is less than 1, the
  log directory is given and the binary is found, and \<^verbatim>\<open>create\<close> succeeds with the
  interval 1.
\<close>

theorem create_interval_zero_counterexample:
  "jx_lookup (ex_args_interval 0) ''resource_monitor_interval'' = Some (JX_INTEGER 0) \<and>
   (0 :: 64 word) <s 1 \<and>
   jx_lookup_string (ex_args_interval 0) ''resource_monitor_log_dir'' = Some ''logs'' \<and>
   resource_monitor_locate ex_env = Some ''/usr/bin/resource_monitor'' \<and>
   fst (create ex_env (ex_args_interval 0)) = MAKEFLOW_HOOK_SUCCESS \<and>
   interval (fst (snd (create ex_env (ex_args_interval 0)))) = 1"
  by (simp add: create_def read_options_def ex_env_def ex_args_interval_def jx_lookup_string_def
      jx_lookup_integer_def makeflow_monitor_create_def Let_def zero_sless_one)

subsection \<open>The log directory in \<^verbatim>\<open>dag_start\<close>\<close>

text \<open>
  The run of \<^verbatim>\<open>dag_start\<close> for each outcome of \<^verbatim>\<open>mkdir\<close> and \<^verbatim>\<open>create_dir\<close>. It
  always returns success; it calls \<^verbatim>\<open>mkdir\<close> first and \<^verbatim>\<open>create_dir\<close> only after
  \<^verbatim>\<open>ENOENT\<close>; after \<^verbatim>\<open>EEXIST\<close> it does nothing more; after any other error of
  \<^verbatim>\<open>mkdir\<close> it writes a debug message. When \<^verbatim>\<open>mkdir\<close> succeeded, or \<^verbatim>\<open>create_dir\<close>
  did (a non-zero result, as the comment on line 124 reads it), the directory is
  looked up or created in the file table and its state change to EXISTS is logged.
\<close>

lemma dag_start_cases:
  assumes "exe m = Some e" and "log_dir m = Some dir"
  shows
  "map_option fst (dag_start env m) = Some MAKEFLOW_HOOK_SUCCESS \<and>
   (sys_mkdir env dir 511 = None \<longrightarrow>
      dag_start env m =
        Some (MAKEFLOW_HOOK_SUCCESS,
              [DagFileLookupOrCreate e, Mkdir dir 511, DagFileLookupOrCreate dir,
               LogFileStateChange (dag_file_lookup_or_create env dir) DAG_FILE_STATE_EXISTS])) \<and>
   (sys_mkdir env dir 511 = Some ENOENT \<and> create_dir env dir 511 \<noteq> 0 \<longrightarrow>
      dag_start env m =
        Some (MAKEFLOW_HOOK_SUCCESS,
              [DagFileLookupOrCreate e, Mkdir dir 511, CreateDir dir 511,
               DagFileLookupOrCreate dir,
               LogFileStateChange (dag_file_lookup_or_create env dir) DAG_FILE_STATE_EXISTS])) \<and>
   (sys_mkdir env dir 511 = Some ENOENT \<and> create_dir env dir 511 = 0 \<longrightarrow>
      dag_start env m =
        Some (MAKEFLOW_HOOK_SUCCESS, [DagFileLookupOrCreate e, Mkdir dir 511, CreateDir dir 511])) \<and>
   (sys_mkdir env dir 511 = Some EEXIST \<longrightarrow>
      dag_start env m = Some (MAKEFLOW_HOOK_SUCCESS, [DagFileLookupOrCreate e, Mkdir dir 511])) \<and>
   (\<forall>err. sys_mkdir env dir 511 = Some err \<and> err \<noteq> ENOENT \<and> err \<noteq> EEXIST \<longrightarrow>
      dag_start env m =
        Some (MAKEFLOW_HOOK_SUCCESS,
              [DagFileLookupOrCreate e, Mkdir dir 511,
               Debug mkdir_failed_msg]))"
proof (intro conjI impI allI)
  show "map_option fst (dag_start env m) = Some MAKEFLOW_HOOK_SUCCESS"
    using assms by (simp add: dag_start_def split: option.split prod.split)
next
  assume "sys_mkdir env dir 511 = None"
  then show "dag_start env m =
      Some (MAKEFLOW_HOOK_SUCCESS,
            [DagFileLookupOrCreate e, Mkdir dir 511, DagFileLookupOrCreate dir,
             LogFileStateChange (dag_file_lookup_or_create env dir) DAG_FILE_STATE_EXISTS])"
    using assms by (simp add: dag_start_def)
next
  assume "sys_mkdir env dir 511 = Some ENOENT \<and> create_dir env dir 511 \<noteq> 0"
  then show "dag_start env m =
      Some (MAKEFLOW_HOOK_SUCCESS,
            [DagFileLookupOrCreate e, Mkdir dir 511, CreateDir dir 511, DagFileLookupOrCreate dir,
             LogFileStateChange (dag_file_lookup_or_create env dir) DAG_FILE_STATE_EXISTS])"
    using assms by (simp add: dag_start_def)
next
  assume "sys_mkdir env dir 511 = Some ENOENT \<and> create_dir env dir 511 = 0"
  then show "dag_start env m =
      Some (MAKEFLOW_HOOK_SUCCESS, [DagFileLookupOrCreate e, Mkdir dir 511, CreateDir dir 511])"
    using assms by (simp add: dag_start_def)
next
  assume "sys_mkdir env dir 511 = Some EEXIST"
  then show "dag_start env m = Some (MAKEFLOW_HOOK_SUCCESS, [DagFileLookupOrCreate e, Mkdir dir 511])"
    using assms by (simp add: dag_start_def)
next
  fix err
  assume "sys_mkdir env dir 511 = Some err \<and> err \<noteq> ENOENT \<and> err \<noteq> EEXIST"
  then show "dag_start env m =
      Some (MAKEFLOW_HOOK_SUCCESS,
            [DagFileLookupOrCreate e, Mkdir dir 511,
             Debug mkdir_failed_msg])"
    using assms by (simp add: dag_start_def)
qed

text \<open>
  C9. The claim holds on every path but one. When \<^verbatim>\<open>mkdir\<close> fails with \<^verbatim>\<open>ENOENT\<close>
  and the recursive \<^verbatim>\<open>create_dir\<close> fails as well (it returns 0), the directory could
  not be created for a reason other than its existence, yet \<^verbatim>\<open>dag_start\<close> returns
  success without a debug message: lines 118 and 119 have none, while the branch for
  the other errors of \<^verbatim>\<open>mkdir\<close> (lines 120 to 122) writes one.
\<close>

theorem dag_start_silent_after_create_dir_failure:
  "sys_mkdir ex_env_no_parent ''a/b'' 511 = Some ENOENT \<and>
   create_dir ex_env_no_parent ''a/b'' 511 = 0 \<and>
   dag_start ex_env_no_parent ((ex_monitor 1 0)\<lparr>log_dir := Some ''a/b''\<rparr>) =
     Some (MAKEFLOW_HOOK_SUCCESS,
           [DagFileLookupOrCreate ''/usr/bin/resource_monitor'', Mkdir ''a/b'' 511,
            CreateDir ''a/b'' 511]) \<and>
   sys_mkdir ex_env ''x'' 511 = Some EACCES \<and>
   dag_start ex_env ((ex_monitor 1 0)\<lparr>log_dir := Some ''x''\<rparr>) =
     Some (MAKEFLOW_HOOK_SUCCESS,
           [DagFileLookupOrCreate ''/usr/bin/resource_monitor'', Mkdir ''x'' 511,
            Debug mkdir_failed_msg])"
proof -
  have mk: "sys_mkdir ex_env_no_parent ''a/b'' 511 = Some ENOENT"
      "create_dir ex_env_no_parent ''a/b'' 511 = 0"
      "sys_mkdir ex_env ''x'' 511 = Some EACCES"
    by (simp_all add: ex_env_no_parent_def ex_env_def)
  have ex: "exe ((ex_monitor 1 0)\<lparr>log_dir := Some d\<rparr>) = Some ''/usr/bin/resource_monitor''"
      "log_dir ((ex_monitor 1 0)\<lparr>log_dir := Some d\<rparr>) = Some d" for d
    by (simp_all add: ex_monitor_def)
  show ?thesis
    using dag_start_cases [OF ex(1) [of "''a/b''"] ex(2) [of "''a/b''"], where env = ex_env_no_parent]
      dag_start_cases [OF ex(1) [of "''x''"] ex(2) [of "''x''"], where env = ex_env] mk
    by simp
qed

subsection \<open>The per-node log prefix\<close>

lemma replace_other_char:
  "c \<noteq> CHR ''%'' \<Longrightarrow> string_replace_percents (c # s) r = c # string_replace_percents s r"
  by (cases s) simp_all

lemma replace_no_percent:
  "CHR ''%'' \<notin> set a \<Longrightarrow> string_replace_percents (a @ t) r = a @ string_replace_percents t r"
  by (induction a) (simp_all add: replace_other_char [OF not_sym])

lemma replace_across_slash:
  "string_replace_percents (d @ CHR ''/'' # t) r =
     string_replace_percents d r @ CHR ''/'' # string_replace_percents t r"
proof (induction d r rule: string_replace_percents.induct)
  case (1 r)
  show ?case by (simp add: replace_other_char)
next
  case (2 c r)
  show ?case by (simp add: replace_other_char)
next
  case (3 c d s r)
  then show ?case by simp
qed

lemma replace_no_marker:
  "\<not> has_marker s \<Longrightarrow> string_replace_percents s r = s"
  by (induction s r rule: string_replace_percents.induct) auto

lemma replace_single_marker:
  assumes "CHR ''%'' \<notin> set a" and "CHR ''%'' \<notin> set b"
  shows "string_replace_percents (a @ ''%%'' @ b) r = a @ r @ b"
proof -
  have "string_replace_percents b r = b"
    using replace_no_percent [OF assms(2), of "[]" r] by simp
  then show ?thesis
    using replace_no_percent [OF assms(1), of "''%%'' @ b" r] by simp
qed

lemma set_log_prefix_measured:
  "set_log_prefix m (n\<lparr>resources_measured := x\<rparr>) = set_log_prefix m n"
  by (simp add: set_log_prefix_def split: option.split)

text \<open>
  The per-node prefix depends on the configuration's \<^verbatim>\<open>log_prefix\<close> and the node id
  alone. After a successful \<^verbatim>\<open>create\<close>, when \<^verbatim>\<open>log_format\<close> holds the marker \<^verbatim>\<open>%%\<close>
  once and no other \<^verbatim>\<open>%\<close>, the format part of the prefix has its marker replaced by
  the decimal node id and nothing else changed; the substitution runs over the log
  directory too.
\<close>

lemma set_log_prefix_single_marker:
  assumes "create env args = (MAKEFLOW_HOOK_SUCCESS, m, evs)"
    and "log_dir m = Some dir"
    and "log_format m = Some (a @ ''%%'' @ b)"
    and "CHR ''%'' \<notin> set a" and "CHR ''%'' \<notin> set b"
  shows
  "set_log_prefix m n =
     Some (string_replace_percents dir (string_format_d (nodeid n)) @ ''/'' @
           a @ string_format_d (nodeid n) @ b) \<and>
   (\<not> has_marker dir \<longrightarrow>
      set_log_prefix m n = Some (dir @ ''/'' @ a @ string_format_d (nodeid n) @ b)) \<and>
   (\<forall>m' n'. log_prefix m' = log_prefix m \<and> nodeid n' = nodeid n \<longrightarrow>
      set_log_prefix m' n' = set_log_prefix m n)"
proof -
  from create_success [OF assms(1)] assms(2,3)
  have pre: "log_prefix m = Some (dir @ ''/'' @ a @ ''%%'' @ b)"
    by auto
  have sub: "set_log_prefix m n =
      Some (string_replace_percents dir (string_format_d (nodeid n)) @ ''/'' @
            a @ string_format_d (nodeid n) @ b)"
    using replace_across_slash [of dir "a @ ''%%'' @ b" "string_format_d (nodeid n)"]
      replace_single_marker [OF assms(4,5), of "string_format_d (nodeid n)"] pre
    by (simp add: set_log_prefix_def)
  have pure: "\<forall>m' n'. log_prefix m' = log_prefix m \<and> nodeid n' = nodeid n \<longrightarrow>
      set_log_prefix m' n' = set_log_prefix m n"
    by (simp add: set_log_prefix_def split: option.split)
  show ?thesis
  proof (intro conjI impI)
    show "set_log_prefix m n =
        Some (string_replace_percents dir (string_format_d (nodeid n)) @ ''/'' @
              a @ string_format_d (nodeid n) @ b)"
      by (rule sub)
  next
    assume "\<not> has_marker dir"
    then show "set_log_prefix m n = Some (dir @ ''/'' @ a @ string_format_d (nodeid n) @ b)"
      unfolding sub by (simp add: replace_no_marker)
  next
    show "\<forall>m' n'. log_prefix m' = log_prefix m \<and> nodeid n' = nodeid n \<longrightarrow>
        set_log_prefix m' n' = set_log_prefix m n"
      by (rule pure)
  qed
qed

subsection \<open>\<^verbatim>\<open>node_submit\<close>: declarations and the sidecar command\<close>

lemma node_submit_runs:
  assumes "exe m = Some e" and "exe_remote m = Some r" and "set_log_prefix m n = Some p"
  shows "node_submit env m n task \<noteq> None"
  using assms
  by (simp add: node_submit_def Let_def split: option.split split del: if_split)

lemma filter_if: "filter P (if c then xs else ys) = (if c then filter P xs else filter P ys)"
  by simp

lemma node_submit_outputs:
  assumes "exe m = Some e" and "exe_remote m = Some r" and "set_log_prefix m n = Some p"
  shows "filter is_output_decl (hook_events (node_submit env m n task)) =
     [HookAddOutputFile (p @ ''.summary'') None DAG_FILE_TYPE_INTERMEDIATE] @
     (if enable_time_series m \<noteq> 0
      then [HookAddOutputFile (p @ ''.series'') None DAG_FILE_TYPE_INTERMEDIATE] else []) @
     (if enable_list_files m \<noteq> 0
      then [HookAddOutputFile (p @ ''.files'') None DAG_FILE_TYPE_INTERMEDIATE] else [])"
  using assms
  by (simp add: node_submit_def hook_events_def Let_def filter_if
      split: option.split split del: if_split cong: if_cong)

lemma node_submit_write_command:
  assumes "exe m = Some e" and "exe_remote m = Some r" and "set_log_prefix m n = Some p"
  shows "filter is_write_command (hook_events (node_submit env m n task)) =
     [WriteCommand
        (if batch_queue_supports_feature (makeflow_get_queue env n) ''remote_rename''
         then ''./'' @ r else e)
        (if batch_queue_supports_feature (makeflow_get_queue env n) ''output_directories''
         then p else path_basename env p)
        (dag_node_dynamic_label env n)
        (''-V '' @ [CHR 0x27] @ ''category:'' @ name (category n) @ [CHR 0x27])
        (enable_debug m) (enable_time_series m) (enable_list_files m)]"
  using assms
  by (simp add: node_submit_def hook_events_def Let_def filter_if
      split: option.split split del: if_split cong: if_cong)

text \<open>
  C5. The output files \<^verbatim>\<open>node_submit\<close> declares on the task are exactly the summary
  log when time series and file lists are both off, and exactly the summary, series
  and files logs when both are on; each is named by the node's log prefix and declared
  with the type intermediate.
\<close>

theorem node_submit_declared_outputs:
  assumes "exe m = Some e" and "exe_remote m = Some r" and "set_log_prefix m n = Some p"
  shows
  "node_submit env m n task \<noteq> None \<and>
   (enable_time_series m = 0 \<and> enable_list_files m = 0 \<longrightarrow>
      filter is_output_decl (hook_events (node_submit env m n task)) =
        [HookAddOutputFile (p @ ''.summary'') None DAG_FILE_TYPE_INTERMEDIATE]) \<and>
   (enable_time_series m \<noteq> 0 \<and> enable_list_files m \<noteq> 0 \<longrightarrow>
      filter is_output_decl (hook_events (node_submit env m n task)) =
        [HookAddOutputFile (p @ ''.summary'') None DAG_FILE_TYPE_INTERMEDIATE,
         HookAddOutputFile (p @ ''.series'') None DAG_FILE_TYPE_INTERMEDIATE,
         HookAddOutputFile (p @ ''.files'') None DAG_FILE_TYPE_INTERMEDIATE])"
proof (intro conjI impI)
  show "node_submit env m n task \<noteq> None"
    by (rule node_submit_runs [OF assms])
next
  assume "enable_time_series m = 0 \<and> enable_list_files m = 0"
  then show "filter is_output_decl (hook_events (node_submit env m n task)) =
      [HookAddOutputFile (p @ ''.summary'') None DAG_FILE_TYPE_INTERMEDIATE]"
    by (simp add: node_submit_outputs [OF assms])
next
  assume "enable_time_series m \<noteq> 0 \<and> enable_list_files m \<noteq> 0"
  then show "filter is_output_decl (hook_events (node_submit env m n task)) =
      [HookAddOutputFile (p @ ''.summary'') None DAG_FILE_TYPE_INTERMEDIATE,
       HookAddOutputFile (p @ ''.series'') None DAG_FILE_TYPE_INTERMEDIATE,
       HookAddOutputFile (p @ ''.files'') None DAG_FILE_TYPE_INTERMEDIATE]"
    by (simp add: node_submit_outputs [OF assms])
qed

theorem node_submit_declared_outputs_witness:
  "enable_time_series (ex_monitor 0 0) = 0 \<and> enable_list_files (ex_monitor 0 0) = 0 \<and>
   filter is_output_decl (hook_events (node_submit ex_env (ex_monitor 0 0) ex_node (ex_task 0 0))) =
     [HookAddOutputFile ''logs/r-7.summary'' None DAG_FILE_TYPE_INTERMEDIATE] \<and>
   enable_time_series (ex_monitor 1 1) \<noteq> 0 \<and> enable_list_files (ex_monitor 1 1) \<noteq> 0 \<and>
   filter is_output_decl (hook_events (node_submit ex_env (ex_monitor 1 1) ex_node (ex_task 0 0))) =
     [HookAddOutputFile ''logs/r-7.summary'' None DAG_FILE_TYPE_INTERMEDIATE,
      HookAddOutputFile ''logs/r-7.series'' None DAG_FILE_TYPE_INTERMEDIATE,
      HookAddOutputFile ''logs/r-7.files'' None DAG_FILE_TYPE_INTERMEDIATE]"
proof -
  have off: "enable_time_series (ex_monitor 0 0) = 0 \<and> enable_list_files (ex_monitor 0 0) = 0"
    by (simp add: ex_monitor_def)
  have on: "enable_time_series (ex_monitor 1 1) \<noteq> 0 \<and> enable_list_files (ex_monitor 1 1) \<noteq> 0"
    by (simp add: ex_monitor_def)
  have a: "exe (ex_monitor 0 0) = Some ''/usr/bin/resource_monitor''"
      "exe_remote (ex_monitor 0 0) = Some ''cctools-monitor''"
      "set_log_prefix (ex_monitor 0 0) ex_node = Some ''logs/r-7''"
    by (simp_all add: ex_monitor_exe ex_prefix)
  have b: "exe (ex_monitor 1 1) = Some ''/usr/bin/resource_monitor''"
      "exe_remote (ex_monitor 1 1) = Some ''cctools-monitor''"
      "set_log_prefix (ex_monitor 1 1) ex_node = Some ''logs/r-7''"
    by (simp_all add: ex_monitor_exe ex_prefix)
  show ?thesis
    using node_submit_declared_outputs [OF a, where env = ex_env and task = "ex_task 0 0"]
      node_submit_declared_outputs [OF b, where env = ex_env and task = "ex_task 0 0"]
      off on
    by simp
qed

text \<open>
  C7. After a successful \<^verbatim>\<open>create\<close>, the executable \<^verbatim>\<open>node_submit\<close> passes to the
  sidecar command-writer is \<^verbatim>\<open>./cctools-monitor\<close> (\<^verbatim>\<open>./\<close> followed by
  \<^verbatim>\<open>exe_remote\<close>) when the queue has the \<^verbatim>\<open>remote_rename\<close> feature, and the path
  found by \<^verbatim>\<open>resource_monitor_locate\<close> (\<^verbatim>\<open>exe\<close>) otherwise.
\<close>

theorem executable_selection:
  assumes "create env args = (MAKEFLOW_HOOK_SUCCESS, m, evs)"
  shows
  "\<exists>e. resource_monitor_locate env = Some e \<and> exe m = Some e \<and>
        exe_remote m = Some ''cctools-monitor'' \<and>
        node_submit env m n task \<noteq> None \<and>
        map wc_executable (filter is_write_command (hook_events (node_submit env m n task))) =
          [if batch_queue_supports_feature (makeflow_get_queue env n) ''remote_rename''
           then ''./cctools-monitor'' else e]"
proof -
  from create_success [OF assms] obtain e dir fmt where
    loc: "resource_monitor_locate env = Some e" and ex: "exe m = Some e"
    and rem: "exe_remote m = Some ''cctools-monitor''"
    and pre: "log_prefix m = Some (dir @ ''/'' @ fmt)"
    by blast
  from pre obtain p where p: "set_log_prefix m n = Some p"
    by (simp add: set_log_prefix_def)
  have run: "node_submit env m n task \<noteq> None"
    by (rule node_submit_runs [OF ex rem p])
  have "map wc_executable (filter is_write_command (hook_events (node_submit env m n task))) =
      [if batch_queue_supports_feature (makeflow_get_queue env n) ''remote_rename''
       then ''./cctools-monitor'' else e]"
    unfolding node_submit_write_command [OF ex rem p] by simp
  with loc ex rem run show ?thesis by simp
qed

theorem executable_selection_witness:
  "create ex_env ex_args = (MAKEFLOW_HOOK_SUCCESS, ex_monitor 1 0, []) \<and>
   map wc_executable
     (filter is_write_command (hook_events (node_submit ex_env (ex_monitor 1 0) ex_node (ex_task 0 0))))
     = [''/usr/bin/resource_monitor''] \<and>
   create ex_env_remote ex_args = (MAKEFLOW_HOOK_SUCCESS, ex_monitor 1 0, []) \<and>
   map wc_executable
     (filter is_write_command
        (hook_events (node_submit ex_env_remote (ex_monitor 1 0) ex_node (ex_task 0 0))))
     = [''./cctools-monitor'']"
proof -
  have q: "\<not> batch_queue_supports_feature (makeflow_get_queue ex_env ex_node) ''remote_rename''"
    by (simp add: ex_env_def batch_queue_supports_feature_def)
  have q': "batch_queue_supports_feature (makeflow_get_queue ex_env_remote ex_node) ''remote_rename''"
    by (simp add: ex_env_remote_def ex_queue_def batch_queue_supports_feature_def)
  have loc: "resource_monitor_locate ex_env = Some ''/usr/bin/resource_monitor''"
    by (simp add: ex_env_def)
  show ?thesis
    using executable_selection [OF ex_create(1), of ex_node "ex_task 0 0"]
      executable_selection [OF ex_create(2), of ex_node "ex_task 0 0"]
      ex_create q q' loc
    by auto
qed

subsection \<open>A marker inside the log directory\<close>

lemma ex_prefix_marker: "set_log_prefix ex_monitor_marker ex_node = Some ''a7/resource-rule-7''"
  by (simp add: set_log_prefix_def ex_monitor_marker_def ex_node_def string_format_d_7)

text \<open>
  C8. The substitution is made in the whole of \<^verbatim>\<open>log_prefix\<close>, the log directory
  included. With the log directory \<^verbatim>\<open>a%%\<close> and the default format, which holds one
  marker and no other \<^verbatim>\<open>%\<close>, the prefix of node 7 is \<^verbatim>\<open>a7/resource-rule-7\<close>: it
  differs from \<^verbatim>\<open>log_prefix\<close> in two places, not in the one where the marker of the
  format was. \<^verbatim>\<open>dag_start\<close> takes the same directory literally and creates \<^verbatim>\<open>a%%\<close>,
  while \<^verbatim>\<open>node_submit\<close> declares the summary under \<^verbatim>\<open>a7\<close>.
\<close>

theorem set_log_prefix_substitutes_log_dir:
  "create ex_env_any_dir [(''resource_monitor_log_dir'', JX_STRING ''a%%'')] =
     (MAKEFLOW_HOOK_SUCCESS, ex_monitor_marker, []) \<and>
   log_format ex_monitor_marker = Some (''resource-rule-'' @ ''%%'' @ []) \<and>
   CHR ''%'' \<notin> set ''resource-rule-'' \<and>
   log_prefix ex_monitor_marker = Some ''a%%/resource-rule-%%'' \<and>
   nodeid ex_node = 7 \<and>
   set_log_prefix ex_monitor_marker ex_node = Some ''a7/resource-rule-7'' \<and>
   set_log_prefix ex_monitor_marker ex_node \<noteq> Some ''a%%/resource-rule-7'' \<and>
   dag_start ex_env_any_dir ex_monitor_marker =
     Some (MAKEFLOW_HOOK_SUCCESS,
           [DagFileLookupOrCreate ''/usr/bin/resource_monitor'', Mkdir ''a%%'' 511,
            DagFileLookupOrCreate ''a%%'',
            LogFileStateChange \<lparr>filename = ''a%%''\<rparr> DAG_FILE_STATE_EXISTS]) \<and>
   filter is_output_decl
     (hook_events (node_submit ex_env_any_dir ex_monitor_marker ex_node (ex_task 0 0))) =
     [HookAddOutputFile ''a7/resource-rule-7.summary'' None DAG_FILE_TYPE_INTERMEDIATE]"
proof -
  have cr: "create ex_env_any_dir [(''resource_monitor_log_dir'', JX_STRING ''a%%'')] =
      (MAKEFLOW_HOOK_SUCCESS, ex_monitor_marker, [])"
    by (simp add: create_def read_options_def ex_env_any_dir_def ex_env_def ex_monitor_marker_def
        jx_lookup_string_def jx_lookup_integer_def makeflow_monitor_create_def Let_def
        DEFAULT_MONITOR_LOG_FORMAT_def one_not_sless_one)
  have fields: "log_format ex_monitor_marker = Some (''resource-rule-'' @ ''%%'' @ [])"
      "log_prefix ex_monitor_marker = Some ''a%%/resource-rule-%%''"
      "exe ex_monitor_marker = Some ''/usr/bin/resource_monitor''"
      "exe_remote ex_monitor_marker = Some ''cctools-monitor''"
      "log_dir ex_monitor_marker = Some ''a%%''"
      "enable_time_series ex_monitor_marker = 0" "enable_list_files ex_monitor_marker = 0"
    by (simp_all add: ex_monitor_marker_def)
  have id7: "nodeid ex_node = 7"
    by (simp add: ex_node_def)
  have mk: "sys_mkdir ex_env_any_dir ''a%%'' 511 = None"
      "dag_file_lookup_or_create ex_env_any_dir ''a%%'' = \<lparr>filename = ''a%%''\<rparr>"
    by (simp_all add: ex_env_any_dir_def ex_env_def)
  have start: "dag_start ex_env_any_dir ex_monitor_marker =
      Some (MAKEFLOW_HOOK_SUCCESS,
            [DagFileLookupOrCreate ''/usr/bin/resource_monitor'', Mkdir ''a%%'' 511,
             DagFileLookupOrCreate ''a%%'',
             LogFileStateChange \<lparr>filename = ''a%%''\<rparr> DAG_FILE_STATE_EXISTS])"
    using dag_start_cases [OF fields(3) fields(5), where env = ex_env_any_dir] mk by simp
  have outs: "filter is_output_decl
      (hook_events (node_submit ex_env_any_dir ex_monitor_marker ex_node (ex_task 0 0))) =
      [HookAddOutputFile ''a7/resource-rule-7.summary'' None DAG_FILE_TYPE_INTERMEDIATE]"
    using node_submit_outputs [OF fields(3) fields(4) ex_prefix_marker,
        where env = ex_env_any_dir and task = "ex_task 0 0"] fields(6,7)
    by simp
  show ?thesis
    using cr fields(1,2) id7 ex_prefix_marker start outs by simp
qed

subsection \<open>Log relocation\<close>

lemma move_output_directories:
  assumes "batch_queue_supports_feature q ''output_directories''"
  shows "makeflow_monitor_move_output_if_needed env m n q = Some (MAKEFLOW_HOOK_SUCCESS, [])"
  using assms by (simp add: makeflow_monitor_move_output_if_needed_def)

lemma move_same_location:
  assumes "set_log_prefix m n = Some p" and "path_basename env p = p"
  shows "makeflow_monitor_move_output_if_needed env m n q = Some (MAKEFLOW_HOOK_SUCCESS, [])"
  using assms by (simp add: makeflow_monitor_move_output_if_needed_def)

lemma move_relocates:
  assumes "\<not> batch_queue_supports_feature q ''output_directories''"
    and "set_log_prefix m n = Some p" and "path_basename env p \<noteq> p"
  shows "\<exists>r evs. makeflow_monitor_move_output_if_needed env m n q = Some (r, evs) \<and>
           filter is_rename evs = attempted_renames env (planned_renames m (path_basename env p) p) \<and>
           (r = MAKEFLOW_HOOK_SUCCESS) = all_renamed env (planned_renames m (path_basename env p) p)"
proof -
  have ne: "p \<noteq> path_basename env p"
    using assms(3) by simp
  show ?thesis
    using assms(1,2) ne
    by (cases "enable_time_series m = 0"; cases "enable_list_files m = 0")
       (simp_all add: makeflow_monitor_move_output_if_needed_def planned_renames_def Let_def)
qed

lemma attempted_all:
  "all_renamed env xs \<Longrightarrow> attempted_renames env xs = map (\<lambda>(old, new). Rename old new) xs"
  by (induction env xs rule: attempted_renames.induct) simp_all

lemma length_planned_renames:
  "length (planned_renames m op p) =
     1 + (if enable_time_series m \<noteq> 0 then 1 else 0) + (if enable_list_files m \<noteq> 0 then 1 else 0)"
  by (simp add: planned_renames_def)

text \<open>
  C3, as the code has it. With the \<^verbatim>\<open>output_directories\<close> feature, or when the
  basename of the node's prefix is the prefix itself, no \<^verbatim>\<open>rename\<close> is made and the
  result is success. Otherwise the renames of \<^verbatim>\<open>.summary\<close>, then \<^verbatim>\<open>.series\<close> when
  time series are on (non-zero), then \<^verbatim>\<open>.files\<close> when file lists are on (non-zero),
  each from the basename prefix to the full prefix, are made in this order up to and
  including the first that fails; the result is success exactly when none failed, and
  then the number of calls is 1 plus one for each flag that is on.
\<close>

theorem move_output_renames:
  assumes "set_log_prefix m n = Some p"
  shows
  "(batch_queue_supports_feature q ''output_directories'' \<longrightarrow>
      makeflow_monitor_move_output_if_needed env m n q = Some (MAKEFLOW_HOOK_SUCCESS, [])) \<and>
   (path_basename env p = p \<longrightarrow>
      makeflow_monitor_move_output_if_needed env m n q = Some (MAKEFLOW_HOOK_SUCCESS, [])) \<and>
   (\<not> batch_queue_supports_feature q ''output_directories'' \<and> path_basename env p \<noteq> p \<longrightarrow>
      rename_calls (makeflow_monitor_move_output_if_needed env m n q) =
        attempted_renames env (planned_renames m (path_basename env p) p) \<and>
      (\<exists>evs. makeflow_monitor_move_output_if_needed env m n q =
         Some (if all_renamed env (planned_renames m (path_basename env p) p)
               then MAKEFLOW_HOOK_SUCCESS else MAKEFLOW_HOOK_FAILURE, evs)) \<and>
      (all_renamed env (planned_renames m (path_basename env p) p) \<longrightarrow>
         rename_calls (makeflow_monitor_move_output_if_needed env m n q) =
           map (\<lambda>(old, new). Rename old new) (planned_renames m (path_basename env p) p) \<and>
         length (rename_calls (makeflow_monitor_move_output_if_needed env m n q)) =
           1 + (if enable_time_series m \<noteq> 0 then 1 else 0) +
               (if enable_list_files m \<noteq> 0 then 1 else 0)))"
proof (intro conjI impI)
  assume "batch_queue_supports_feature q ''output_directories''"
  then show "makeflow_monitor_move_output_if_needed env m n q = Some (MAKEFLOW_HOOK_SUCCESS, [])"
    by (rule move_output_directories)
next
  assume "path_basename env p = p"
  then show "makeflow_monitor_move_output_if_needed env m n q = Some (MAKEFLOW_HOOK_SUCCESS, [])"
    using assms
    by (cases "batch_queue_supports_feature q ''output_directories''")
       (simp_all add: move_output_directories move_same_location)
next
  assume h: "\<not> batch_queue_supports_feature q ''output_directories'' \<and> path_basename env p \<noteq> p"
  let ?plan = "planned_renames m (path_basename env p) p"
  from h assms obtain r evs where
    run: "makeflow_monitor_move_output_if_needed env m n q = Some (r, evs)"
    and calls: "filter is_rename evs = attempted_renames env ?plan"
    and res: "(r = MAKEFLOW_HOOK_SUCCESS) = all_renamed env ?plan"
    using move_relocates [of q m n p env] by blast
  show calls': "rename_calls (makeflow_monitor_move_output_if_needed env m n q) =
      attempted_renames env ?plan"
    using run calls by (simp add: rename_calls_def)
  show "\<exists>evs. makeflow_monitor_move_output_if_needed env m n q =
      Some (if all_renamed env ?plan then MAKEFLOW_HOOK_SUCCESS else MAKEFLOW_HOOK_FAILURE, evs)"
    using run res by (cases r) auto
  {
    assume ok: "all_renamed env ?plan"
    show all: "rename_calls (makeflow_monitor_move_output_if_needed env m n q) =
        map (\<lambda>(old, new). Rename old new) ?plan"
      using calls' attempted_all [OF ok] by simp
    show "length (rename_calls (makeflow_monitor_move_output_if_needed env m n q)) =
        1 + (if enable_time_series m \<noteq> 0 then 1 else 0) +
            (if enable_list_files m \<noteq> 0 then 1 else 0)"
      unfolding all by (simp add: length_planned_renames)
  }
qed

theorem move_output_renames_witness:
  "set_log_prefix (ex_monitor 1 0) ex_node = Some ''logs/r-7'' \<and>
   \<not> batch_queue_supports_feature (ex_queue []) ''output_directories'' \<and>
   path_basename ex_env ''logs/r-7'' \<noteq> ''logs/r-7'' \<and>
   all_renamed ex_env (planned_renames (ex_monitor 1 0) ''r-7'' ''logs/r-7'') \<and>
   rename_calls (makeflow_monitor_move_output_if_needed ex_env (ex_monitor 1 0) ex_node (ex_queue [])) =
     [Rename ''r-7.summary'' ''logs/r-7.summary'', Rename ''r-7.series'' ''logs/r-7.series''] \<and>
   length (rename_calls
     (makeflow_monitor_move_output_if_needed ex_env (ex_monitor 1 0) ex_node (ex_queue []))) = 2 \<and>
   batch_queue_supports_feature (ex_queue [''output_directories'']) ''output_directories'' \<and>
   makeflow_monitor_move_output_if_needed ex_env (ex_monitor 1 0) ex_node
     (ex_queue [''output_directories'']) = Some (MAKEFLOW_HOOK_SUCCESS, [])"
proof -
  have base: "path_basename ex_env ''logs/r-7'' = ''r-7''"
    by (simp add: ex_env_def ex_basename)
  have plan: "planned_renames (ex_monitor 1 0) ''r-7'' ''logs/r-7'' =
      [(''r-7.summary'', ''logs/r-7.summary''), (''r-7.series'', ''logs/r-7.series'')]"
    by (simp add: planned_renames_def ex_monitor_def)
  have ok: "all_renamed ex_env (planned_renames (ex_monitor 1 0) ''r-7'' ''logs/r-7'')"
    unfolding plan by (simp add: ex_env_def)
  have flags: "enable_time_series (ex_monitor 1 0) \<noteq> 0" "enable_list_files (ex_monitor 1 0) = 0"
    by (simp_all add: ex_monitor_def)
  have sup: "batch_queue_supports_feature (ex_queue [''output_directories'']) ''output_directories''"
    by (simp add: batch_queue_supports_feature_def ex_queue_def)
  show ?thesis
    using move_output_renames [OF ex_prefix, of "ex_queue []" ex_env 1 0]
      move_output_renames [OF ex_prefix, of "ex_queue [''output_directories'']" ex_env 1 0]
      ex_prefix [of 1 0] ex_queue_plain [of "''output_directories''"] base plan ok flags sup
    by simp
qed

text \<open>
  The claim as stated fails when a rename fails: with time series on and the first
  rename failing, one call is made, not two; the \<^verbatim>\<open>.series\<close> file is not moved.
\<close>

theorem move_output_failed_rename_counterexample:
  "\<not> batch_queue_supports_feature (ex_queue []) ''output_directories'' \<and>
   set_log_prefix (ex_monitor 1 0) ex_node = Some ''logs/r-7'' \<and>
   path_basename ex_env_rename_fails ''logs/r-7'' = ''r-7'' \<and>
   enable_time_series (ex_monitor 1 0) = 1 \<and>
   enable_list_files (ex_monitor 1 0) = 0 \<and>
   makeflow_monitor_move_output_if_needed ex_env_rename_fails (ex_monitor 1 0) ex_node (ex_queue []) =
     Some (MAKEFLOW_HOOK_FAILURE,
           [Rename ''r-7.summary'' ''logs/r-7.summary'', Debug rename_error_msg]) \<and>
   length (rename_calls
     (makeflow_monitor_move_output_if_needed ex_env_rename_fails (ex_monitor 1 0) ex_node (ex_queue [])))
     \<noteq> 1 + unat (enable_time_series (ex_monitor 1 0)) + unat (enable_list_files (ex_monitor 1 0))"
proof -
  have base: "path_basename ex_env_rename_fails ''logs/r-7'' = ''r-7''"
    by (simp add: ex_env_rename_fails_def ex_env_def ex_basename)
  have fails: "sys_rename ex_env_rename_fails old new = Some ENOENT" for old new
    by (simp add: ex_env_rename_fails_def)
  have run: "makeflow_monitor_move_output_if_needed ex_env_rename_fails (ex_monitor 1 0) ex_node
      (ex_queue []) =
      Some (MAKEFLOW_HOOK_FAILURE,
            [Rename ''r-7.summary'' ''logs/r-7.summary'', Debug rename_error_msg])"
    by (simp add: makeflow_monitor_move_output_if_needed_def ex_queue_plain ex_prefix base fails)
  have flags: "enable_time_series (ex_monitor 1 0) = 1" "enable_list_files (ex_monitor 1 0) = 0"
    by (simp_all add: ex_monitor_def)
  show ?thesis
    unfolding run by (simp add: ex_queue_plain ex_prefix base flags rename_calls_def)
qed

subsection \<open>\<^verbatim>\<open>node_end\<close>\<close>

lemma move_no_parse:
  assumes "set_log_prefix m n = Some p"
  shows "\<exists>res evs. makeflow_monitor_move_output_if_needed env m n q = Some (res, evs) \<and>
           filter is_parse evs = []"
  using assms
  by (cases "batch_queue_supports_feature q ''output_directories''";
      cases "p = path_basename env p";
      cases "enable_time_series m = 0"; cases "enable_list_files m = 0")
     (simp_all add: makeflow_monitor_move_output_if_needed_def Let_def)

lemma node_end_no_summary:
  assumes "set_log_prefix m n = Some p"
    and "rmsummary_parse_file_single env
           ((if batch_queue_supports_feature (makeflow_get_queue env n) ''output_directories''
             then p else path_basename env p) @ ''.summary'') = None"
  shows "node_end env m n task =
     Some (MAKEFLOW_HOOK_SUCCESS, n\<lparr>resources_measured := None\<rparr>,
           (case resources_measured n of Some old \<Rightarrow> [RmsummaryDelete old] | None \<Rightarrow> []) @
           [RmsummaryParse
              ((if batch_queue_supports_feature (makeflow_get_queue env n) ''output_directories''
                then p else path_basename env p) @ ''.summary''),
            Debug measure_failed_msg])"
  using assms by (simp add: node_end_def Let_def)

text \<open>
  C4. When the summary file of the node cannot be parsed (it is absent or malformed),
  \<^verbatim>\<open>node_end\<close> returns success, makes no \<^verbatim>\<open>rename\<close>, folds nothing into the category
  and logs no state change.
\<close>

theorem node_end_missing_summary:
  assumes "set_log_prefix m n = Some p"
    and "rmsummary_parse_file_single env
           ((if batch_queue_supports_feature (makeflow_get_queue env n) ''output_directories''
             then p else path_basename env p) @ ''.summary'') = None"
  shows "map_option fst (node_end env m n task) = Some MAKEFLOW_HOOK_SUCCESS \<and>
         filter is_rename (hook_events (node_end env m n task)) = [] \<and>
         filter is_accumulate (hook_events (node_end env m n task)) = [] \<and>
         filter is_state_change (hook_events (node_end env m n task)) = []"
  unfolding node_end_no_summary [OF assms]
  by (simp add: hook_events_def split: option.split)

theorem node_end_missing_summary_witness:
  "set_log_prefix (ex_monitor 1 0) ex_node = Some ''logs/r-7'' \<and>
   rmsummary_parse_file_single ex_env ''r-7.summary'' = None \<and>
   map_option fst (node_end ex_env (ex_monitor 1 0) ex_node (ex_task 0 0)) =
     Some MAKEFLOW_HOOK_SUCCESS \<and>
   filter is_rename (hook_events (node_end ex_env (ex_monitor 1 0) ex_node (ex_task 0 0))) = [] \<and>
   filter is_accumulate (hook_events (node_end ex_env (ex_monitor 1 0) ex_node (ex_task 0 0))) = []"
proof -
  have parse: "rmsummary_parse_file_single ex_env f = None" for f
    by (simp add: ex_env_def)
  show ?thesis
    using node_end_missing_summary [OF ex_prefix parse, of 1 0 "ex_task 0 0"] ex_prefix [of 1 0] parse
    by simp
qed

lemma node_end_with_summary:
  assumes "set_log_prefix m n = Some p"
    and "rmsummary_parse_file_single env
           ((if batch_queue_supports_feature (makeflow_get_queue env n) ''output_directories''
             then p else path_basename env p) @ ''.summary'') = Some x"
  shows "\<exists>res evs.
     makeflow_monitor_move_output_if_needed env m (n\<lparr>resources_measured := Some x\<rparr>)
       (makeflow_get_queue env (n\<lparr>resources_measured := Some x\<rparr>)) = Some (res, evs) \<and>
     node_end env m n task =
       Some (res, n\<lparr>resources_measured := Some x\<rparr>,
             (case resources_measured n of Some old \<Rightarrow> [RmsummaryDelete old] | None \<Rightarrow> []) @
             [RmsummaryParse
                ((if batch_queue_supports_feature (makeflow_get_queue env n) ''output_directories''
                  then p else path_basename env p) @ ''.summary''),
              CategoryAccumulate (name (category n)) x] @ evs)"
proof -
  let ?n = "n\<lparr>resources_measured := Some x\<rparr>"
  have pre: "set_log_prefix m ?n = Some p"
    using assms(1) by (simp add: set_log_prefix_measured)
  obtain res evs where
    mv: "makeflow_monitor_move_output_if_needed env m ?n (makeflow_get_queue env ?n) = Some (res, evs)"
    using move_no_parse [OF pre, of env "makeflow_get_queue env ?n"] by blast
  have "node_end env m n task =
       Some (res, ?n,
             (case resources_measured n of Some old \<Rightarrow> [RmsummaryDelete old] | None \<Rightarrow> []) @
             [RmsummaryParse
                ((if batch_queue_supports_feature (makeflow_get_queue env n) ''output_directories''
                  then p else path_basename env p) @ ''.summary''),
              CategoryAccumulate (name (category n)) x] @ evs)"
    using assms mv
    by (simp add: node_end_def Let_def split del: if_split)
  with mv show ?thesis by blast
qed

text \<open>
  C10. Whatever the parse gives, \<^verbatim>\<open>node_end\<close> deletes the measurement attached to the
  node and only then parses the summary file, and the node leaves with the result of
  the parse as its measurement. So when the node enters with a measurement and the
  file cannot be parsed, the callback returns success and the node leaves with no
  measurement; when the file parses, the old measurement is deleted all the same and
  the new one is attached.
\<close>

theorem node_end_drops_previous_measurement:
  assumes "set_log_prefix m n = Some p"
    and "resources_measured n = Some old"
  shows
  "\<exists>res n' rest.
     node_end env m n task =
       Some (res, n',
             [RmsummaryDelete old,
              RmsummaryParse
                ((if batch_queue_supports_feature (makeflow_get_queue env n) ''output_directories''
                  then p else path_basename env p) @ ''.summary'')] @ rest) \<and>
     n' = n\<lparr>resources_measured :=
             rmsummary_parse_file_single env
               ((if batch_queue_supports_feature (makeflow_get_queue env n) ''output_directories''
                 then p else path_basename env p) @ ''.summary'')\<rparr> \<and>
     (rmsummary_parse_file_single env
        ((if batch_queue_supports_feature (makeflow_get_queue env n) ''output_directories''
          then p else path_basename env p) @ ''.summary'') = None \<longrightarrow>
      res = MAKEFLOW_HOOK_SUCCESS \<and> resources_measured n' = None \<and>
      rest = [Debug measure_failed_msg])"
proof (cases "rmsummary_parse_file_single env
         ((if batch_queue_supports_feature (makeflow_get_queue env n) ''output_directories''
           then p else path_basename env p) @ ''.summary'')")
  case None
  show ?thesis
    using node_end_no_summary [OF assms(1) None, of task] assms(2) None by simp
next
  case (Some x)
  from node_end_with_summary [OF assms(1) Some, of task] obtain res evs where
    run: "node_end env m n task =
       Some (res, n\<lparr>resources_measured := Some x\<rparr>,
             (case resources_measured n of Some old \<Rightarrow> [RmsummaryDelete old] | None \<Rightarrow> []) @
             [RmsummaryParse
                ((if batch_queue_supports_feature (makeflow_get_queue env n) ''output_directories''
                  then p else path_basename env p) @ ''.summary''),
              CategoryAccumulate (name (category n)) x] @ evs)"
    by blast
  show ?thesis
    using run assms(2) Some by simp
qed

theorem node_end_drops_previous_measurement_witness:
  "set_log_prefix (ex_monitor 0 0) ex_node = Some ''logs/r-7'' \<and>
   resources_measured ex_node = Some ex_summary \<and>
   rmsummary_parse_file_single ex_env ''r-7.summary'' = None \<and>
   node_end ex_env (ex_monitor 0 0) ex_node (ex_task 0 0) =
     Some (MAKEFLOW_HOOK_SUCCESS, ex_node\<lparr>resources_measured := None\<rparr>,
           [RmsummaryDelete ex_summary, RmsummaryParse ''r-7.summary'',
            Debug measure_failed_msg]) \<and>
   rmsummary_parse_file_single ex_env_measured ''r-7.summary'' = Some ex_summary_new \<and>
   take 2 (hook_events (node_end ex_env_measured (ex_monitor 0 0) ex_node (ex_task 0 0))) =
     [RmsummaryDelete ex_summary, RmsummaryParse ''r-7.summary''] \<and>
   map_option (resources_measured \<circ> fst \<circ> snd)
     (node_end ex_env_measured (ex_monitor 0 0) ex_node (ex_task 0 0)) =
     Some (Some ex_summary_new)"
proof -
  have parse: "rmsummary_parse_file_single ex_env f = None"
      "rmsummary_parse_file_single ex_env_measured f = Some ex_summary_new" for f
    by (simp_all add: ex_env_measured_def ex_env_def)
  have old: "resources_measured ex_node = Some ex_summary"
    by (simp add: ex_node_def)
  have q: "\<not> batch_queue_supports_feature (makeflow_get_queue ex_env ex_node) ''output_directories''"
      "\<not> batch_queue_supports_feature (makeflow_get_queue ex_env_measured ex_node)
          ''output_directories''"
    by (simp_all add: ex_env_measured_def ex_env_def batch_queue_supports_feature_def)
  have base: "path_basename ex_env ''logs/r-7'' = ''r-7''"
      "path_basename ex_env_measured ''logs/r-7'' = ''r-7''"
    by (simp_all add: ex_env_measured_def ex_env_def ex_basename)
  have pre: "set_log_prefix (ex_monitor 0 0) ex_node = Some ''logs/r-7''"
    by (rule ex_prefix)
  have failed: "node_end ex_env (ex_monitor 0 0) ex_node (ex_task 0 0) =
      Some (MAKEFLOW_HOOK_SUCCESS, ex_node\<lparr>resources_measured := None\<rparr>,
            [RmsummaryDelete ex_summary, RmsummaryParse ''r-7.summary'',
             Debug measure_failed_msg])"
    using node_end_drops_previous_measurement [OF pre old, where env = ex_env
        and task = "ex_task 0 0"] parse(1) q(1) base(1)
    by auto
  from node_end_drops_previous_measurement [OF pre old, where env = ex_env_measured
      and task = "ex_task 0 0"]
  obtain res n' rest where
    run: "node_end ex_env_measured (ex_monitor 0 0) ex_node (ex_task 0 0) =
        Some (res, n', [RmsummaryDelete ex_summary, RmsummaryParse ''r-7.summary''] @ rest)"
    and node: "n' = ex_node\<lparr>resources_measured := Some ex_summary_new\<rparr>"
    using parse(2) q(2) base(2) by auto
  have parsed: "take 2 (hook_events (node_end ex_env_measured (ex_monitor 0 0) ex_node (ex_task 0 0))) =
      [RmsummaryDelete ex_summary, RmsummaryParse ''r-7.summary''] \<and>
    map_option (resources_measured \<circ> fst \<circ> snd)
      (node_end ex_env_measured (ex_monitor 0 0) ex_node (ex_task 0 0)) =
      Some (Some ex_summary_new)"
    unfolding run node by (simp add: hook_events_def)
  show ?thesis
    using pre old parse failed parsed by simp
qed

text \<open>
  The result of the relocation is the result of \<^verbatim>\<open>node_end\<close> (line 299): a failed
  rename fails the callback.
\<close>

lemma node_end_returns_relocation_result:
  assumes "set_log_prefix m n = Some p"
    and "rmsummary_parse_file_single env
           ((if batch_queue_supports_feature (makeflow_get_queue env n) ''output_directories''
             then p else path_basename env p) @ ''.summary'') = Some x"
  shows "map_option fst (node_end env m n task) =
     map_option fst
       (makeflow_monitor_move_output_if_needed env m (n\<lparr>resources_measured := Some x\<rparr>)
          (makeflow_get_queue env (n\<lparr>resources_measured := Some x\<rparr>)))"
  using node_end_with_summary [OF assms, of task] by auto

lemma node_end_parses:
  assumes "set_log_prefix m n = Some p"
  shows "node_end env m n task \<noteq> None \<and>
    filter is_parse (hook_events (node_end env m n task)) =
      [RmsummaryParse
         ((if batch_queue_supports_feature (makeflow_get_queue env n) ''output_directories''
           then p else path_basename env p) @ ''.summary'')]"
proof (cases "rmsummary_parse_file_single env
         ((if batch_queue_supports_feature (makeflow_get_queue env n) ''output_directories''
           then p else path_basename env p) @ ''.summary'')")
  case None
  show ?thesis
    unfolding node_end_no_summary [OF assms None]
    by (simp add: hook_events_def split: option.split)
next
  case (Some x)
  let ?n = "n\<lparr>resources_measured := Some x\<rparr>"
  have pre: "set_log_prefix m ?n = Some p"
    using assms by (simp add: set_log_prefix_measured)
  obtain res evs where
    mv: "makeflow_monitor_move_output_if_needed env m ?n (makeflow_get_queue env ?n) = Some (res, evs)"
    and no: "filter is_parse evs = []"
    using move_no_parse [OF pre, of env "makeflow_get_queue env ?n"] by blast
  show ?thesis
    using assms Some mv no
    by (simp add: node_end_def hook_events_def Let_def split: option.split split del: if_split)
qed

text \<open>
  C6. The output prefix \<^verbatim>\<open>node_submit\<close> passes to the sidecar command-writer is the
  node's log prefix when the queue has the \<^verbatim>\<open>output_directories\<close> feature and the
  basename of that prefix otherwise; the summary file \<^verbatim>\<open>node_end\<close> reads is named by
  the same choice of prefix.
\<close>

theorem output_prefix_choice:
  assumes "exe m = Some e" and "exe_remote m = Some r" and "set_log_prefix m n = Some p"
  shows
  "node_submit env m n task \<noteq> None \<and>
   map wc_output_prefix (filter is_write_command (hook_events (node_submit env m n task))) =
     [if batch_queue_supports_feature (makeflow_get_queue env n) ''output_directories''
      then p else path_basename env p] \<and>
   node_end env m n task' \<noteq> None \<and>
   filter is_parse (hook_events (node_end env m n task')) =
     [RmsummaryParse
        ((if batch_queue_supports_feature (makeflow_get_queue env n) ''output_directories''
          then p else path_basename env p) @ ''.summary'')]"
proof (intro conjI)
  show "node_submit env m n task \<noteq> None"
    by (rule node_submit_runs [OF assms])
  show "map wc_output_prefix (filter is_write_command (hook_events (node_submit env m n task))) =
     [if batch_queue_supports_feature (makeflow_get_queue env n) ''output_directories''
      then p else path_basename env p]"
    unfolding node_submit_write_command [OF assms] by simp
  show "node_end env m n task' \<noteq> None"
    using node_end_parses [OF assms(3), of env task'] by simp
  show "filter is_parse (hook_events (node_end env m n task')) =
     [RmsummaryParse
        ((if batch_queue_supports_feature (makeflow_get_queue env n) ''output_directories''
          then p else path_basename env p) @ ''.summary'')]"
    using node_end_parses [OF assms(3), of env task'] by simp
qed

theorem output_prefix_choice_witness:
  "exe (ex_monitor 1 0) = Some ''/usr/bin/resource_monitor'' \<and>
   exe_remote (ex_monitor 1 0) = Some ''cctools-monitor'' \<and>
   set_log_prefix (ex_monitor 1 0) ex_node = Some ''logs/r-7'' \<and>
   map wc_output_prefix
     (filter is_write_command (hook_events (node_submit ex_env (ex_monitor 1 0) ex_node (ex_task 0 0))))
     = [''r-7''] \<and>
   filter is_parse (hook_events (node_end ex_env (ex_monitor 1 0) ex_node (ex_task 0 0))) =
     [RmsummaryParse ''r-7.summary''] \<and>
   map wc_output_prefix
     (filter is_write_command
        (hook_events (node_submit ex_env_remote (ex_monitor 1 0) ex_node (ex_task 0 0))))
     = [''logs/r-7''] \<and>
   filter is_parse (hook_events (node_end ex_env_remote (ex_monitor 1 0) ex_node (ex_task 0 0))) =
     [RmsummaryParse ''logs/r-7.summary'']"
proof -
  have q: "\<not> batch_queue_supports_feature (makeflow_get_queue ex_env ex_node) ''output_directories''"
    by (simp add: ex_env_def batch_queue_supports_feature_def)
  have q': "batch_queue_supports_feature (makeflow_get_queue ex_env_remote ex_node)
      ''output_directories''"
    by (simp add: ex_env_remote_def ex_queue_def batch_queue_supports_feature_def)
  have base: "path_basename ex_env ''logs/r-7'' = ''r-7''"
    by (simp add: ex_env_def ex_basename)
  have a: "exe (ex_monitor 1 0) = Some ''/usr/bin/resource_monitor''"
      "exe_remote (ex_monitor 1 0) = Some ''cctools-monitor''"
      "set_log_prefix (ex_monitor 1 0) ex_node = Some ''logs/r-7''"
    by (simp_all add: ex_monitor_exe ex_prefix)
  show ?thesis
    using output_prefix_choice [OF a, where env = ex_env and task = "ex_task 0 0"
        and task' = "ex_task 0 0"]
      output_prefix_choice [OF a, where env = ex_env_remote and task = "ex_task 0 0"
        and task' = "ex_task 0 0"] a q q' base
    by simp
qed

subsection \<open>Escalation in \<^verbatim>\<open>node_fail\<close>\<close>

lemma node_fail_other:
  assumes "disk_allocation_exhausted (info task) = 0"
    and "exit_code (info task) \<noteq> RM_OVERFLOW env"
  shows "node_fail env n task = (MAKEFLOW_HOOK_SUCCESS, n, [])"
  using assms by (simp add: node_fail_def)

lemma reports_no_state_change:
  "filter is_state_change (disk_report n) = []"
  "filter is_state_change (overflow_report n) = []"
  by (simp_all add: disk_report_def overflow_report_def split: option.split)

lemma resubmit_result:
  "fst (node_fail_resubmit env n ev) = MAKEFLOW_HOOK_FAILURE"
  by (simp add: node_fail_resubmit_def Let_def)

lemma resubmit_next:
  assumes "category_next_label env (category n) (resource_request n) 1
             (resources_requested n) (resources_measured n) = l"
    and "l \<noteq> CATEGORY_ALLOCATION_ERROR"
  shows "fst (snd (node_fail_resubmit env n ev)) = n\<lparr>resource_request := l\<rparr>"
    and "filter is_state_change (snd (snd (node_fail_resubmit env n ev))) =
           filter is_state_change ev @ [LogStateChange (nodeid n) DAG_NODE_STATE_WAITING]"
  using assms by (simp_all add: node_fail_resubmit_def Let_def)

lemma resubmit_exhausted:
  assumes "category_next_label env (category n) (resource_request n) 1
             (resources_requested n) (resources_measured n) = CATEGORY_ALLOCATION_ERROR"
  shows "node_fail_resubmit env n ev = (MAKEFLOW_HOOK_FAILURE, n, ev)"
  using assms by (simp add: node_fail_resubmit_def Let_def)

lemma node_fail_overflow:
  assumes "disk_allocation_exhausted (info task) \<noteq> 0 \<or> exit_code (info task) = RM_OVERFLOW env"
  obtains ev where "node_fail env n task = node_fail_resubmit env n ev"
    and "filter is_state_change ev = []"
proof (cases "disk_allocation_exhausted (info task) \<noteq> 0")
  case True
  then have "node_fail env n task = node_fail_resubmit env n (disk_report n)"
    by (simp add: node_fail_def)
  then show ?thesis
    using that reports_no_state_change(1) by blast
next
  case False
  with assms have "node_fail env n task = node_fail_resubmit env n (overflow_report n)"
    by (simp add: node_fail_def)
  then show ?thesis
    using that reports_no_state_change(2) by blast
qed

lemma node_fail_overflow_result:
  assumes "disk_allocation_exhausted (info task) \<noteq> 0 \<or> exit_code (info task) = RM_OVERFLOW env"
  shows "fst (node_fail env n task) = MAKEFLOW_HOOK_FAILURE"
  using node_fail_overflow [OF assms, of n] by (metis resubmit_result)

lemma node_fail_overflow_next:
  assumes ov: "disk_allocation_exhausted (info task) \<noteq> 0 \<or> exit_code (info task) = RM_OVERFLOW env"
    and nx: "category_next_label env (category n) (resource_request n) 1
               (resources_requested n) (resources_measured n) = l"
    and ok: "l \<noteq> CATEGORY_ALLOCATION_ERROR"
  shows "fst (snd (node_fail env n task)) = n\<lparr>resource_request := l\<rparr>"
    and "filter is_state_change (snd (snd (node_fail env n task))) =
           [LogStateChange (nodeid n) DAG_NODE_STATE_WAITING]"
proof -
  from node_fail_overflow [OF ov, of n] obtain ev where
    run: "node_fail env n task = node_fail_resubmit env n ev"
    and quiet: "filter is_state_change ev = []"
    by blast
  show "fst (snd (node_fail env n task)) = n\<lparr>resource_request := l\<rparr>"
    unfolding run by (rule resubmit_next(1) [OF nx ok])
  show "filter is_state_change (snd (snd (node_fail env n task))) =
           [LogStateChange (nodeid n) DAG_NODE_STATE_WAITING]"
    unfolding run resubmit_next(2) [OF nx ok] quiet by simp
qed

lemma node_fail_overflow_exhausted:
  assumes ov: "disk_allocation_exhausted (info task) \<noteq> 0 \<or> exit_code (info task) = RM_OVERFLOW env"
    and nx: "category_next_label env (category n) (resource_request n) 1
               (resources_requested n) (resources_measured n) = CATEGORY_ALLOCATION_ERROR"
  shows "fst (snd (node_fail env n task)) = n"
    and "filter is_state_change (snd (snd (node_fail env n task))) = []"
proof -
  from node_fail_overflow [OF ov, of n] obtain ev where
    run: "node_fail env n task = node_fail_resubmit env n ev"
    and quiet: "filter is_state_change ev = []"
    by blast
  show "fst (snd (node_fail env n task)) = n"
    unfolding run resubmit_exhausted [OF nx] by simp
  show "filter is_state_change (snd (snd (node_fail env n task))) = []"
    unfolding run resubmit_exhausted [OF nx] using quiet by simp
qed

text \<open>
  C2. When the task failed with its disk allocation exhausted or with the exit code
  \<^verbatim>\<open>RM_OVERFLOW\<close>, \<^verbatim>\<open>node_fail\<close> returns failure; the node's \<^verbatim>\<open>resource_request\<close> is
  set to the next label and one state change, to WAITING, is logged exactly when the
  next label is not \<^verbatim>\<open>CATEGORY_ALLOCATION_ERROR\<close>; otherwise the node is unchanged and
  no state change is logged. For a failure of any other kind \<^verbatim>\<open>node_fail\<close> returns
  success, leaves the node as it is and logs nothing.
\<close>

theorem node_fail_escalation:
  fixes env :: env and n :: dag_node and task :: batch_task
  shows
  "((disk_allocation_exhausted (info task) \<noteq> 0 \<or> exit_code (info task) = RM_OVERFLOW env) \<longrightarrow>
      fst (node_fail env n task) = MAKEFLOW_HOOK_FAILURE \<and>
      (if category_next_label env (category n) (resource_request n) 1
            (resources_requested n) (resources_measured n) \<noteq> CATEGORY_ALLOCATION_ERROR
       then fst (snd (node_fail env n task)) =
              n\<lparr>resource_request :=
                   category_next_label env (category n) (resource_request n) 1
                     (resources_requested n) (resources_measured n)\<rparr> \<and>
            filter is_state_change (snd (snd (node_fail env n task))) =
              [LogStateChange (nodeid n) DAG_NODE_STATE_WAITING]
       else fst (snd (node_fail env n task)) = n \<and>
            filter is_state_change (snd (snd (node_fail env n task))) = [])) \<and>
   ((disk_allocation_exhausted (info task) = 0 \<and> exit_code (info task) \<noteq> RM_OVERFLOW env) \<longrightarrow>
      node_fail env n task = (MAKEFLOW_HOOK_SUCCESS, n, []))"
proof (intro conjI impI)
  assume ov: "disk_allocation_exhausted (info task) \<noteq> 0 \<or> exit_code (info task) = RM_OVERFLOW env"
  show "fst (node_fail env n task) = MAKEFLOW_HOOK_FAILURE"
    by (rule node_fail_overflow_result [OF ov])
  show "if category_next_label env (category n) (resource_request n) 1
            (resources_requested n) (resources_measured n) \<noteq> CATEGORY_ALLOCATION_ERROR
       then fst (snd (node_fail env n task)) =
              n\<lparr>resource_request :=
                   category_next_label env (category n) (resource_request n) 1
                     (resources_requested n) (resources_measured n)\<rparr> \<and>
            filter is_state_change (snd (snd (node_fail env n task))) =
              [LogStateChange (nodeid n) DAG_NODE_STATE_WAITING]
       else fst (snd (node_fail env n task)) = n \<and>
            filter is_state_change (snd (snd (node_fail env n task))) = []"
  proof (cases "category_next_label env (category n) (resource_request n) 1
            (resources_requested n) (resources_measured n) = CATEGORY_ALLOCATION_ERROR")
    case True
    with node_fail_overflow_exhausted [OF ov True] show ?thesis by simp
  next
    case False
    with node_fail_overflow_next [OF ov refl False] show ?thesis by simp
  qed
next
  assume "disk_allocation_exhausted (info task) = 0 \<and> exit_code (info task) \<noteq> RM_OVERFLOW env"
  then show "node_fail env n task = (MAKEFLOW_HOOK_SUCCESS, n, [])"
    by (simp add: node_fail_other)
qed

theorem node_fail_escalation_witness:
  "exit_code (info (ex_task 0 147)) = RM_OVERFLOW ex_env \<and>
   fst (node_fail ex_env ex_node (ex_task 0 147)) = MAKEFLOW_HOOK_FAILURE \<and>
   fst (snd (node_fail ex_env ex_node (ex_task 0 147))) =
     ex_node\<lparr>resource_request := CATEGORY_ALLOCATION_MAX\<rparr> \<and>
   filter is_state_change (snd (snd (node_fail ex_env ex_node (ex_task 0 147)))) =
     [LogStateChange 7 DAG_NODE_STATE_WAITING] \<and>
   disk_allocation_exhausted (info (ex_task 1 0)) \<noteq> 0 \<and>
   fst (node_fail ex_env (ex_node\<lparr>resource_request := CATEGORY_ALLOCATION_MAX\<rparr>) (ex_task 1 0)) =
     MAKEFLOW_HOOK_FAILURE \<and>
   fst (snd (node_fail ex_env (ex_node\<lparr>resource_request := CATEGORY_ALLOCATION_MAX\<rparr>) (ex_task 1 0))) =
     ex_node\<lparr>resource_request := CATEGORY_ALLOCATION_MAX\<rparr> \<and>
   filter is_state_change
     (snd (snd (node_fail ex_env (ex_node\<lparr>resource_request := CATEGORY_ALLOCATION_MAX\<rparr>)
        (ex_task 1 0)))) = [] \<and>
   disk_allocation_exhausted (info (ex_task 0 1)) = 0 \<and>
   exit_code (info (ex_task 0 1)) \<noteq> RM_OVERFLOW ex_env \<and>
   node_fail ex_env ex_node (ex_task 0 1) = (MAKEFLOW_HOOK_SUCCESS, ex_node, [])"
proof -
  let ?top = "ex_node\<lparr>resource_request := CATEGORY_ALLOCATION_MAX\<rparr>"
  have ov: "exit_code (info (ex_task 0 147)) = RM_OVERFLOW ex_env"
    by (simp add: ex_task_def ex_env_def)
  have disk: "disk_allocation_exhausted (info (ex_task 1 0)) \<noteq> 0"
    by (simp add: ex_task_def)
  have nx: "category_next_label ex_env (category ex_node) (resource_request ex_node) 1
              (resources_requested ex_node) (resources_measured ex_node) = CATEGORY_ALLOCATION_MAX"
    by (simp add: ex_env_def ex_node_def)
  have top: "category_next_label ex_env (category ?top) (resource_request ?top) 1
              (resources_requested ?top) (resources_measured ?top) = CATEGORY_ALLOCATION_ERROR"
    by (simp add: ex_env_def ex_node_def)
  have other: "disk_allocation_exhausted (info (ex_task 0 1)) = 0 \<and>
      exit_code (info (ex_task 0 1)) \<noteq> RM_OVERFLOW ex_env"
    by (simp add: ex_task_def ex_env_def)
  have id7: "nodeid ex_node = 7"
    by (simp add: ex_node_def)
  show ?thesis
    using node_fail_escalation [of "ex_task 0 147" ex_env ex_node]
      node_fail_escalation [of "ex_task 1 0" ex_env ?top]
      node_fail_escalation [of "ex_task 0 1" ex_env ex_node] ov disk nx top other id7
    by simp
qed

end
